theory Spec2Isabelle
  imports Complex_Main
begin

section \<open>Python values: errors, integers and floats\<close>

text \<open>
  The exceptions the modelled code can raise. \<open>OSError\<close> stands for every failure of the
  operating system or of a decoder (a file that cannot be opened, decoded or written).
\<close>

datatype error = ZeroDivisionError | ValueError | KeyError | OSError

text \<open>
  Python integers are unbounded: \<open>int\<close>. Python floats are IEEE doubles; every float
  operation is the exact real result passed through the rounding \<open>fl\<close> of the
  floating-point unit, and \<open>math.sin\<close>, \<open>math.cos\<close>, \<open>math.pi\<close> are its \<open>fsin\<close>,
  \<open>fcos\<close>, \<open>fpi\<close>. The unit is a parameter of every function that computes with floats.
  \<open>exact\<close> is the unit that does not round.

  The infinities and NaN that doubles produce on overflow are not part of the model: a
  float is a real number. A statement that a float computation returns a value therefore
  bounds its inputs, so that every intermediate result is a finite double.
\<close>

record fpu =
  fl :: "real \<Rightarrow> real"
  fsin :: "real \<Rightarrow> real"
  fcos :: "real \<Rightarrow> real"
  fpi :: real

definition exact :: fpu where
  "exact = \<lparr>fl = (\<lambda>x. x), fsin = sin, fcos = cos, fpi = pi\<rparr>"

text \<open>
  What round-to-nearest on doubles guarantees in the range used here: it is monotone, it
  leaves the integers up to \<open>2^53\<close> unchanged, and its relative error is at most \<open>2^-53\<close>.
\<close>

definition ieee_like :: "fpu \<Rightarrow> bool" where
  "ieee_like F \<longleftrightarrow>
     (\<forall>x y. x \<le> y \<longrightarrow> fl F x \<le> fl F y) \<and>
     (\<forall>n::int. \<bar>n\<bar> \<le> 2 ^ 53 \<longrightarrow> fl F (of_int n) = of_int n) \<and>
     (\<forall>x. 1 / 2 ^ 64 \<le> \<bar>x\<bar> \<and> \<bar>x\<bar> \<le> 2 ^ 64 \<longrightarrow> \<bar>fl F x - x\<bar> \<le> \<bar>x\<bar> / 2 ^ 53)"

text \<open>\<open>int(x)\<close> on a float truncates towards zero.\<close>

definition py_int :: "real \<Rightarrow> int" where
  "py_int x = (if 0 \<le> x then \<lfloor>x\<rfloor> else \<lceil>x\<rceil>)"

text \<open>An integer operand of a float operation is converted to a float first.\<close>

definition to_float :: "fpu \<Rightarrow> int \<Rightarrow> real" where
  "to_float F n = fl F (of_int n)"

text \<open>\<open>a / b\<close> on two integers: the correctly rounded quotient, or ZeroDivisionError.\<close>

definition int_truediv :: "fpu \<Rightarrow> int \<Rightarrow> int \<Rightarrow> error + real" where
  "int_truediv F a b =
     (if b = 0 then Inl ZeroDivisionError else Inr (fl F (of_int a / of_int b)))"

text \<open>\<open>a / b\<close> on floats.\<close>

definition float_truediv :: "fpu \<Rightarrow> real \<Rightarrow> real \<Rightarrow> error + real" where
  "float_truediv F a b = (if b = 0 then Inl ZeroDivisionError else Inr (fl F (a / b)))"

text \<open>Strings by what they are used for: file paths, dictionary keys, and the wording of
  a report.\<close>

type_synonym path = string

type_synonym key = string

type_synonym label = string

section \<open>Configuration (config\_printful.py)\<close>

record template =
  tpl_width :: int
  tpl_height :: int
  tpl_dpi :: int
  tpl_safe_margin :: int

definition CANVAS_TEMPLATES :: "string \<rightharpoonup> template" where
  "CANVAS_TEMPLATES =
     [''main'' \<mapsto> \<lparr>tpl_width = 3600, tpl_height = 4800, tpl_dpi = 300, tpl_safe_margin = 75\<rparr>,
      ''sleeve'' \<mapsto> \<lparr>tpl_width = 900, tpl_height = 4200, tpl_dpi = 300, tpl_safe_margin = 75\<rparr>]"

text \<open>A layout rule is a dictionary from \<open>width_percent\<close>, \<open>height_percent\<close>, \<open>top_percent\<close>
  to integers.\<close>

type_synonym rule = "string \<rightharpoonup> int"

definition LAYOUT_CONFIG :: "string \<rightharpoonup> (string \<rightharpoonup> rule)" where
  "LAYOUT_CONFIG =
     [''front'' \<mapsto>
        [''main_image'' \<mapsto> [''width_percent'' \<mapsto> 45, ''top_percent'' \<mapsto> 20],
         ''title'' \<mapsto> [''width_percent'' \<mapsto> 60, ''top_percent'' \<mapsto> 55],
         ''wordmark'' \<mapsto> [''width_percent'' \<mapsto> 25, ''top_percent'' \<mapsto> 75]],
      ''back'' \<mapsto>
        [''main_image'' \<mapsto> [''width_percent'' \<mapsto> 80, ''top_percent'' \<mapsto> 50]],
      ''sleeve'' \<mapsto>
        [''logo'' \<mapsto> [''height_percent'' \<mapsto> 25, ''top_percent'' \<mapsto> 50]]]"

text \<open>\<open>LAYOUT_CONFIG[placement][element]\<close>.\<close>

definition layout_rule :: "string \<Rightarrow> string \<Rightarrow> error + rule" where
  "layout_rule placement element =
     (case LAYOUT_CONFIG placement of
        None \<Rightarrow> Inl KeyError
      | Some elements \<Rightarrow>
          (case elements element of None \<Rightarrow> Inl KeyError | Some r \<Rightarrow> Inr r))"

definition FONTS_DIR :: string where
  "FONTS_DIR = ''assets/fonts''"

section \<open>Images (PIL)\<close>

text \<open>
  A glyph of a curved title: the character, its angle on the arc, the point computed for
  it, the rotation of its tile in degrees and the corner the tile is composited at.
\<close>

record glyph =
  g_char :: nat
  g_angle :: real
  g_x :: real
  g_y :: real
  g_rotation :: real
  g_dest :: "int \<times> int"

datatype font = TrueType string int | DefaultFont

text \<open>
  Pixel contents are kept symbolically, as the PIL operations that produced them: raster
  data of a file, a fill colour, a mode conversion, a LANCZOS resampling to a size, an
  element (with its size) pasted at a position, and the rotated character tiles of a
  curved title, composited in order.
\<close>

datatype pixels =
    Raw nat
  | Fill "nat \<times> nat \<times> nat \<times> nat"
  | Convert string pixels
  | Lanczos pixels "int \<times> int"
  | Paste pixels pixels "int \<times> int" "int \<times> int"
  | Glyphs font int "nat \<times> nat \<times> nat \<times> nat" "glyph list"

record image =
  width :: int
  height :: int
  mode :: string
  pixels :: pixels

definition img_size :: "image \<Rightarrow> int \<times> int" where
  "img_size im = (width im, height im)"

definition image_new :: "string \<Rightarrow> int \<times> int \<Rightarrow> nat \<times> nat \<times> nat \<times> nat \<Rightarrow> image" where
  "image_new m sz colour = \<lparr>width = fst sz, height = snd sz, mode = m, pixels = Fill colour\<rparr>"

definition convert :: "string \<Rightarrow> image \<Rightarrow> image" where
  "convert m im = (if mode im = m then im else im\<lparr>mode := m, pixels := Convert m (pixels im)\<rparr>)"

text \<open>
  \<open>Image.resize(size, LANCZOS)\<close>: a copy when the size is the image's own, ValueError when
  a side of the target is below 1, the resampled image otherwise.
\<close>

definition pil_resize :: "image \<Rightarrow> int \<times> int \<Rightarrow> error + image" where
  "pil_resize im sz =
     (if sz = img_size im then Inr im
      else if fst sz < 1 \<or> snd sz < 1 then Inl ValueError
      else Inr (im\<lparr>width := fst sz, height := snd sz, pixels := Lanczos (pixels im) sz\<rparr>))"

text \<open>\<open>canvas.paste(im, pos, im)\<close>: the canvas keeps its size and mode.\<close>

definition paste :: "image \<Rightarrow> image \<Rightarrow> int \<times> int \<Rightarrow> image" where
  "paste canvas im pos = canvas\<lparr>pixels := Paste (pixels canvas) (pixels im) (img_size im) pos\<rparr>"

section \<open>Canvas geometry (utils/canvas\_composer.py)\<close>

definition calculate_position ::
  "fpu \<Rightarrow> int \<times> int \<Rightarrow> int \<times> int \<Rightarrow> rule \<Rightarrow> string \<Rightarrow> int \<times> int" where
  "calculate_position F canvas_size element_size position_config alignment =
     (case canvas_size of (canvas_w, canvas_h) \<Rightarrow>
      case element_size of (elem_w, elem_h) \<Rightarrow>
        let y = (case position_config ''top_percent'' of
                   Some top_percent \<Rightarrow> py_int (fl F (of_int (canvas_h * top_percent) / 100))
                 | None \<Rightarrow> (canvas_h - elem_h) div 2);
            x = (if alignment = ''center'' then (canvas_w - elem_w) div 2
                 else if alignment = ''left'' then
                   py_int (fl F (to_float F canvas_w * fl F (1 / 10)))
                 else if alignment = ''right'' then
                   py_int (fl F (to_float F canvas_w * fl F (9 / 10))) - elem_w
                 else (canvas_w - elem_w) div 2)
        in (x, y))"

definition resize_maintaining_aspect ::
  "fpu \<Rightarrow> image \<Rightarrow> rule \<Rightarrow> int \<times> int \<Rightarrow> error + image" where
  "resize_maintaining_aspect F img target_config canvas_size =
     (case canvas_size of (canvas_w, canvas_h) \<Rightarrow>
        (case target_config ''width_percent'' of
           Some width_percent \<Rightarrow>
             (let target_width = py_int (fl F (of_int (canvas_w * width_percent) / 100)) in
              case int_truediv F (height img) (width img) of
                Inl e \<Rightarrow> Inl e
              | Inr aspect_ratio \<Rightarrow>
                  (let target_height = py_int (fl F (to_float F target_width * aspect_ratio))
                   in pil_resize img (target_width, target_height)))
         | None \<Rightarrow>
             (case target_config ''height_percent'' of
                Some height_percent \<Rightarrow>
                  (let target_height = py_int (fl F (of_int (canvas_h * height_percent) / 100)) in
                   case int_truediv F (width img) (height img) of
                     Inl e \<Rightarrow> Inl e
                   | Inr aspect_ratio \<Rightarrow>
                       (let target_width = py_int (fl F (to_float F target_height * aspect_ratio))
                        in pil_resize img (target_width, target_height)))
              | None \<Rightarrow> Inr img)))"

definition apply_safe_margins ::
  "int \<times> int \<Rightarrow> int \<times> int \<Rightarrow> int \<times> int \<Rightarrow> int \<Rightarrow> int \<times> int" where
  "apply_safe_margins position element_size canvas_size margin =
     (case position of (x, y) \<Rightarrow>
      case element_size of (elem_w, elem_h) \<Rightarrow>
      case canvas_size of (canvas_w, canvas_h) \<Rightarrow>
        (max margin (min x (canvas_w - elem_w - margin)),
         max margin (min y (canvas_h - elem_h - margin))))"

section \<open>The file system and the console\<close>

text \<open>
  A path names at most one file: an image with its decoded contents, a font, or anything
  else (a file that no decoder accepts). \<open>denied\<close> holds the paths at which the operating
  system refuses to create a directory or to write a file. Directories are not entries of
  \<open>files\<close>. \<open>stdout\<close> is what the code has printed, one event per \<open>print\<close>.
\<close>

datatype entry = ImageFile image | FontFile | OtherFile

datatype event =
    Composing string "int \<times> int"
  | Placed string "int \<times> int" "int \<times> int"
  | NotFound string string
  | Saved string string
  | ComposeFailed string error
  | VariantsHeader string
  | Separator
  | VariantsSummary nat
  | FontLoadFailed string error
  | Rendering "nat list" string
  | FontNotFound string
  | FontSearchHint string
  | TitleSaved string string
  | RenderFailed "nat list" error

record world =
  files :: "string \<rightharpoonup> entry"
  denied :: "string set"
  stdout :: "event list"

definition py_print :: "world \<Rightarrow> event \<Rightarrow> world" where
  "py_print w e = w\<lparr>stdout := stdout w @ [e]\<rparr>"

definition path_exists :: "world \<Rightarrow> string \<Rightarrow> bool" where
  "path_exists w p = (files w p \<noteq> None)"

text \<open>\<open>Image.open(path)\<close> followed by a load: raises unless the file decodes as an image.\<close>

definition image_open :: "world \<Rightarrow> string \<Rightarrow> error + image" where
  "image_open w p = (case files w p of Some (ImageFile im) \<Rightarrow> Inr im | _ \<Rightarrow> Inl OSError)"

text \<open>\<open>os.makedirs(d, exist_ok=True)\<close>: raises on the empty path and where the system refuses.\<close>

definition makedirs :: "world \<Rightarrow> string \<Rightarrow> error + world" where
  "makedirs w d = (if d = [] \<or> d \<in> denied w then Inl OSError else Inr w)"

definition image_save :: "world \<Rightarrow> image \<Rightarrow> string \<Rightarrow> error + world" where
  "image_save w im p =
     (if p \<in> denied w then Inl OSError else Inr (w\<lparr>files := (files w)(p \<mapsto> ImageFile im)\<rparr>))"

text \<open>\<open>posixpath.join\<close> (two arguments), \<open>dirname\<close> and \<open>basename\<close>.\<close>

definition path_join :: "string \<Rightarrow> string \<Rightarrow> string" where
  "path_join a b =
     (if b \<noteq> [] \<and> hd b = CHR ''/'' then b
      else if a = [] \<or> last a = CHR ''/'' then a @ b
      else a @ ''/'' @ b)"

definition basename :: "string \<Rightarrow> string" where
  "basename p = rev (takeWhile (\<lambda>c. c \<noteq> CHR ''/'') (rev p))"

definition dirname :: "string \<Rightarrow> string" where
  "dirname p =
     (let head = rev (dropWhile (\<lambda>c. c \<noteq> CHR ''/'') (rev p)) in
      if head \<noteq> [] \<and> \<not> list_all (\<lambda>c. c = CHR ''/'') head
      then rev (dropWhile (\<lambda>c. c = CHR ''/'') (rev head))
      else head)"

section \<open>Compositions (utils/canvas\_composer.py)\<close>

text \<open>
  The block that the compose functions repeat for each element once its file exists: open
  and convert to RGBA, look the rule up, resize, position, clamp, paste. Any exception leaves
  the block.
\<close>

definition place_layer ::
  "fpu \<Rightarrow> world \<Rightarrow> image \<Rightarrow> int \<times> int \<Rightarrow> int \<Rightarrow> key \<Rightarrow> key \<Rightarrow> path \<Rightarrow>
   error + image \<times> (int \<times> int) \<times> (int \<times> int)" where
  "place_layer F w canvas canvas_size safe_margin placement element path =
     (case image_open w path of
        Inl e \<Rightarrow> Inl e
      | Inr opened \<Rightarrow>
          (case layout_rule placement element of
             Inl e \<Rightarrow> Inl e
           | Inr config \<Rightarrow>
               (case resize_maintaining_aspect F (convert ''RGBA'' opened) config canvas_size of
                  Inl e \<Rightarrow> Inl e
                | Inr resized \<Rightarrow>
                    (let pos = calculate_position F canvas_size (img_size resized) config ''center'';
                         pos = apply_safe_margins pos (img_size resized) canvas_size safe_margin
                     in Inr (paste canvas resized pos, img_size resized, pos)))))"

text \<open>An element whose absence is only reported (the three elements of the front).\<close>

definition optional_layer ::
  "fpu \<Rightarrow> int \<times> int \<Rightarrow> int \<Rightarrow> key \<Rightarrow> key \<Rightarrow> label \<Rightarrow> label \<Rightarrow> path \<Rightarrow>
   image \<times> world \<Rightarrow> (error + image) \<times> world" where
  "optional_layer F canvas_size safe_margin placement element label missing_label path cw =
     (case cw of (canvas, w) \<Rightarrow>
        if path_exists w path then
          (case place_layer F w canvas canvas_size safe_margin placement element path of
             Inl e \<Rightarrow> (Inl e, w)
           | Inr (canvas', sz, pos) \<Rightarrow> (Inr canvas', py_print w (Placed label sz pos)))
        else (Inr canvas, py_print w (NotFound missing_label path)))"

text \<open>An element whose absence ends the composition with False (back and sleeve):
  \<open>None\<close> is that early return.\<close>

definition required_layer ::
  "fpu \<Rightarrow> int \<times> int \<Rightarrow> int \<Rightarrow> key \<Rightarrow> key \<Rightarrow> label \<Rightarrow> label \<Rightarrow> path \<Rightarrow>
   image \<times> world \<Rightarrow> (error + image option) \<times> world" where
  "required_layer F canvas_size safe_margin placement element label missing_label path cw =
     (case cw of (canvas, w) \<Rightarrow>
        if path_exists w path then
          (case place_layer F w canvas canvas_size safe_margin placement element path of
             Inl e \<Rightarrow> (Inl e, w)
           | Inr (canvas', sz, pos) \<Rightarrow> (Inr (Some canvas'), py_print w (Placed label sz pos)))
        else (Inr None, py_print w (NotFound missing_label path)))"

text \<open>\<open>os.makedirs(os.path.dirname(output_path), exist_ok=True)\<close>, \<open>canvas.save\<close>, and the
  report.\<close>

definition save_composition :: "world \<Rightarrow> image \<Rightarrow> string \<Rightarrow> string \<Rightarrow> error + world" where
  "save_composition w canvas output_path label =
     (case makedirs w (dirname output_path) of
        Inl e \<Rightarrow> Inl e
      | Inr w1 \<Rightarrow>
          (case image_save w1 canvas output_path of
             Inl e \<Rightarrow> Inl e
           | Inr w2 \<Rightarrow> Inr (py_print w2 (Saved label (basename output_path)))))"

text \<open>The body of the \<open>try\<close> of \<open>compose_front\<close>: an exception, or the value returned.\<close>

definition compose_front_try ::
  "fpu \<Rightarrow> world \<Rightarrow> path \<Rightarrow> path \<Rightarrow> path \<Rightarrow> path \<Rightarrow> (error + bool) \<times> world" where
  "compose_front_try F w main_image_path title_image_path wordmark_image_path output_path =
     (case CANVAS_TEMPLATES ''main'' of
        None \<Rightarrow> (Inl KeyError, w)
      | Some template \<Rightarrow>
          (let canvas_size = (tpl_width template, tpl_height template);
               safe_margin = tpl_safe_margin template;
               canvas = image_new ''RGBA'' canvas_size (255, 255, 255, 0);
               w0 = py_print w (Composing ''FRONT'' canvas_size)
           in case optional_layer F canvas_size safe_margin ''front'' ''main_image''
                     ''Design principale'' ''Design principale'' main_image_path (canvas, w0) of
                (Inl e, w1) \<Rightarrow> (Inl e, w1)
              | (Inr canvas1, w1) \<Rightarrow>
           (case optional_layer F canvas_size safe_margin ''front'' ''title''
                     ''Titolo curvato'' ''Titolo'' title_image_path (canvas1, w1) of
                (Inl e, w2) \<Rightarrow> (Inl e, w2)
              | (Inr canvas2, w2) \<Rightarrow>
           (case optional_layer F canvas_size safe_margin ''front'' ''wordmark''
                     ''Wordmark'' ''Wordmark'' wordmark_image_path (canvas2, w2) of
                (Inl e, w3) \<Rightarrow> (Inl e, w3)
              | (Inr canvas3, w3) \<Rightarrow>
           (case save_composition w3 canvas3 output_path ''Front'' of
                Inl e \<Rightarrow> (Inl e, w3)
              | Inr w4 \<Rightarrow> (Inr True, w4))))))"

definition compose_front ::
  "fpu \<Rightarrow> world \<Rightarrow> path \<Rightarrow> path \<Rightarrow> path \<Rightarrow> path \<Rightarrow> bool \<times> world" where
  "compose_front F w main_image_path title_image_path wordmark_image_path output_path =
     (case compose_front_try F w main_image_path title_image_path wordmark_image_path
             output_path of
        (Inl e, w') \<Rightarrow> (False, py_print w' (ComposeFailed ''front'' e))
      | (Inr ok, w') \<Rightarrow> (ok, w'))"

text \<open>\<open>compose_back\<close> and \<open>compose_sleeve\<close> are the same code on one required element; they
  differ in the template, the rule and the wording of the reports.\<close>

definition compose_single_try ::
  "fpu \<Rightarrow> world \<Rightarrow> key \<Rightarrow> label \<Rightarrow> key \<Rightarrow> key \<Rightarrow> label \<Rightarrow> label \<Rightarrow> label \<Rightarrow>
   path \<Rightarrow> path \<Rightarrow> (error + bool) \<times> world" where
  "compose_single_try F w template_name banner placement element label missing_label saved_label
     image_path output_path =
     (case CANVAS_TEMPLATES template_name of
        None \<Rightarrow> (Inl KeyError, w)
      | Some template \<Rightarrow>
          (let canvas_size = (tpl_width template, tpl_height template);
               safe_margin = tpl_safe_margin template;
               canvas = image_new ''RGBA'' canvas_size (255, 255, 255, 0);
               w0 = py_print w (Composing banner canvas_size)
           in case required_layer F canvas_size safe_margin placement element
                     label missing_label image_path (canvas, w0) of
                (Inl e, w1) \<Rightarrow> (Inl e, w1)
              | (Inr None, w1) \<Rightarrow> (Inr False, w1)
              | (Inr (Some canvas1), w1) \<Rightarrow>
           (case save_composition w1 canvas1 output_path saved_label of
                Inl e \<Rightarrow> (Inl e, w1)
              | Inr w2 \<Rightarrow> (Inr True, w2))))"

definition compose_back :: "fpu \<Rightarrow> world \<Rightarrow> string \<Rightarrow> string \<Rightarrow> bool \<times> world" where
  "compose_back F w main_image_path output_path =
     (case compose_single_try F w ''main'' ''BACK'' ''back'' ''main_image''
             ''Design back'' ''Design principale'' ''Back'' main_image_path output_path of
        (Inl e, w') \<Rightarrow> (False, py_print w' (ComposeFailed ''back'' e))
      | (Inr ok, w') \<Rightarrow> (ok, w'))"

definition compose_sleeve :: "fpu \<Rightarrow> world \<Rightarrow> string \<Rightarrow> string \<Rightarrow> bool \<times> world" where
  "compose_sleeve F w logo_image_path output_path =
     (case compose_single_try F w ''sleeve'' ''SLEEVE'' ''sleeve'' ''logo''
             ''Logo sleeve'' ''Logo'' ''Sleeve'' logo_image_path output_path of
        (Inl e, w') \<Rightarrow> (False, py_print w' (ComposeFailed ''sleeve'' e))
      | (Inr ok, w') \<Rightarrow> (ok, w'))"

section \<open>All variants of a product\<close>

text \<open>
  The asset dictionary maps a key to a path or to \<open>None\<close>. \<open>asset_get\<close> is
  \<open>asset_urls.get(key)\<close> where Python takes it as true: present, not \<open>None\<close>, not empty.
  The result dictionary maps the five variant names to a path or to \<open>None\<close>.
\<close>

type_synonym assets = "string \<rightharpoonup> string option"

type_synonym results = "string \<rightharpoonup> string option"

definition asset_get :: "assets \<Rightarrow> string \<Rightarrow> string option" where
  "asset_get asset_urls k =
     (case asset_urls k of Some (Some p) \<Rightarrow> (if p = [] then None else Some p) | _ \<Rightarrow> None)"

definition initial_results :: results where
  "initial_results =
     [''front_light'' \<mapsto> None, ''front_dark'' \<mapsto> None, ''back'' \<mapsto> None,
      ''sleeve_light'' \<mapsto> None, ''sleeve_dark'' \<mapsto> None]"

definition front_variant ::
  "fpu \<Rightarrow> string \<Rightarrow> path \<Rightarrow> path \<Rightarrow> assets \<Rightarrow> key \<Rightarrow> key \<Rightarrow> key \<Rightarrow>
   results \<times> world \<Rightarrow> results \<times> world" where
  "front_variant F slug product_dir main_image_path asset_urls name title_key wordmark_key rw =
     (case rw of (results, w) \<Rightarrow>
        (case (asset_get asset_urls title_key, asset_get asset_urls wordmark_key) of
           (Some title, Some wordmark) \<Rightarrow>
             (let path = path_join product_dir (slug @ ''_'' @ name @ ''.png'') in
              case compose_front F w main_image_path title wordmark path of
                (True, w') \<Rightarrow> (results(name \<mapsto> Some path), w')
              | (False, w') \<Rightarrow> (results, w'))
         | _ \<Rightarrow> (results, w)))"

definition back_variant ::
  "fpu \<Rightarrow> string \<Rightarrow> path \<Rightarrow> path \<Rightarrow> results \<times> world \<Rightarrow> results \<times> world" where
  "back_variant F slug product_dir main_image_path rw =
     (case rw of (results, w) \<Rightarrow>
        (let path = path_join product_dir (slug @ ''_back.png'') in
         case compose_back F w main_image_path path of
           (True, w') \<Rightarrow> (results(''back'' \<mapsto> Some path), w')
         | (False, w') \<Rightarrow> (results, w')))"

definition sleeve_variant ::
  "fpu \<Rightarrow> string \<Rightarrow> string \<Rightarrow> assets \<Rightarrow> string \<Rightarrow> string \<Rightarrow>
   results \<times> world \<Rightarrow> results \<times> world" where
  "sleeve_variant F slug product_dir asset_urls name logo_key rw =
     (case rw of (results, w) \<Rightarrow>
        (case asset_get asset_urls logo_key of
           Some logo \<Rightarrow>
             (let path = path_join product_dir (slug @ ''_'' @ name @ ''.png'') in
              case compose_sleeve F w logo path of
                (True, w') \<Rightarrow> (results(name \<mapsto> Some path), w')
              | (False, w') \<Rightarrow> (results, w'))
         | None \<Rightarrow> (results, w)))"

definition variant_names :: "string list" where
  "variant_names = [''front_light'', ''front_dark'', ''back'', ''sleeve_light'', ''sleeve_dark'']"

definition successful :: "results \<Rightarrow> nat" where
  "successful results =
     length (filter (\<lambda>k. case results k of Some (Some p) \<Rightarrow> True | _ \<Rightarrow> False) variant_names)"

text \<open>
  \<open>os.makedirs(product_dir)\<close> stands before the \<open>try\<close>: its exception reaches the caller
  (\<open>Inl\<close>). Inside the \<open>try\<close> nothing raises, since each compose function catches its own
  exceptions; the handler of the \<open>try\<close> is never entered.
\<close>

definition create_all_variants_for_product ::
  "fpu \<Rightarrow> world \<Rightarrow> string \<Rightarrow> string \<Rightarrow> assets \<Rightarrow> string \<Rightarrow> error + results \<times> world" where
  "create_all_variants_for_product F w slug main_image_path asset_urls output_dir =
     (let product_dir = path_join output_dir slug in
      case makedirs w product_dir of
        Inl e \<Rightarrow> Inl e
      | Inr w0 \<Rightarrow>
          (let w1 = py_print (py_print w0 (VariantsHeader slug)) Separator;
               s1 = front_variant F slug product_dir main_image_path asset_urls
                      ''front_light'' ''title_dark'' ''wordmark_dark'' (initial_results, w1);
               s2 = front_variant F slug product_dir main_image_path asset_urls
                      ''front_dark'' ''title_light'' ''wordmark_light'' s1;
               s3 = back_variant F slug product_dir main_image_path s2;
               s4 = sleeve_variant F slug product_dir asset_urls ''sleeve_dark'' ''logo_dark'' s3;
               s5 = sleeve_variant F slug product_dir asset_urls ''sleeve_light'' ''logo_light'' s4
           in Inr (fst s5, py_print (snd s5) (VariantsSummary (successful (fst s5))))))"

section \<open>Curved titles (utils/font\_renderer.py)\<close>

text \<open>
  A title is a Python string, a list of code points. The font library is a parameter:
  \<open>bbox font c\<close> is \<open>font.getbbox(c)[2]\<close>, the width the code measures for a character.
  \<open>ImageFont.truetype\<close> raises unless the file is a font.
\<close>

definition truetype :: "world \<Rightarrow> string \<Rightarrow> int \<Rightarrow> error + font" where
  "truetype w font_path font_size =
     (case files w font_path of
        Some FontFile \<Rightarrow> Inr (TrueType font_path font_size)
      | _ \<Rightarrow> Inl OSError)"

text \<open>\<open>math.degrees\<close>.\<close>

definition degrees :: "fpu \<Rightarrow> real \<Rightarrow> real" where
  "degrees F a = fl F (a * fl F (180 / fpi F))"

text \<open>
  The loop over the characters: \<open>current_x\<close> is the running offset, \<open>placed\<close> the tiles
  composited so far.
\<close>

fun place_chars ::
  "fpu \<Rightarrow> (nat \<Rightarrow> int) \<Rightarrow> int \<Rightarrow> int \<Rightarrow> int \<Rightarrow> real \<Rightarrow> real \<Rightarrow> real \<Rightarrow> glyph list \<Rightarrow>
   nat list \<Rightarrow> error + glyph list" where
  "place_chars F char_w font_size center_x center_y curve_strength radius current_x placed [] =
     Inr placed"
| "place_chars F char_w font_size center_x center_y curve_strength radius current_x placed
     (c # rest) =
     (let char_width = char_w c in
      case float_truediv F (fl F (current_x + fl F (of_int char_width / 2))) radius of
        Inl e \<Rightarrow> Inl e
      | Inr angle \<Rightarrow>
          (let x = fl F (to_float F center_x + fl F (radius * fsin F angle));
               y = fl F (to_float F center_y +
                     fl F (fl F (radius * fl F (1 - fcos F angle)) *
                       to_float F (if curve_strength < 0 then - 1 else 1)));
               tile = \<lparr>g_char = c, g_angle = angle, g_x = x, g_y = y,
                        g_rotation = degrees F angle,
                        g_dest = (py_int (fl F (x - to_float F font_size)),
                                  py_int (fl F (y - to_float F font_size)))\<rparr>
           in place_chars F char_w font_size center_x center_y curve_strength radius
                (fl F (current_x + to_float F char_width)) (placed @ [tile]) rest))"

text \<open>
  \<open>draw_curved_text\<close>, for curvatures and widths on which its floats stay finite. (For a
  curvature so large that \<open>2\<pi>\<bar>c\<bar>\<close> overflows the code computes the radius 0.0 and
  raises ZeroDivisionError; for one so small that the radius overflows it reaches \<open>int\<close>
  of a NaN and raises ValueError.)
\<close>

definition draw_curved_text ::
  "fpu \<Rightarrow> (font \<Rightarrow> nat \<Rightarrow> int) \<Rightarrow> world \<Rightarrow> nat list \<Rightarrow> string \<Rightarrow> int \<Rightarrow> int \<times> int \<Rightarrow> real \<Rightarrow>
   nat \<times> nat \<times> nat \<times> nat \<Rightarrow> (error + image) \<times> world" where
  "draw_curved_text F bbox w text font_path font_size image_size curve_strength color =
     (case image_size of (iw, ih) \<Rightarrow>
        (let center_x = iw div 2;
             center_y = ih div 2 + 50;
             loaded = (case truetype w font_path font_size of
                         Inr f \<Rightarrow> (f, w)
                       | Inl e \<Rightarrow> (DefaultFont, py_print w (FontLoadFailed font_path e)));
             font = fst loaded;
             w1 = snd loaded;
             text_width = sum_list (map (bbox font) text);
             divisor = (if 0 < \<bar>curve_strength\<bar> then fl F (fl F (2 * fpi F) * \<bar>curve_strength\<bar>)
                        else fl F (1 / 100))
         in case float_truediv F (to_float F text_width) divisor of
              Inl e \<Rightarrow> (Inl e, w1)
            | Inr radius \<Rightarrow>
                (let current_x = fl F (of_int (- text_width) / 2) in
                 case place_chars F (bbox font) font_size center_x center_y curve_strength
                        radius current_x [] text of
                   Inl e \<Rightarrow> (Inl e, w1)
                 | Inr tiles \<Rightarrow>
                     (Inr \<lparr>width = iw, height = ih, mode = ''RGBA'',
                           pixels = Glyphs font font_size color tiles\<rparr>, w1))))"

text \<open>
  The dictionary \<open>render_title_with_libre_bodoni\<close> returns: \<open>dark\<close> and \<open>light\<close> are always
  present (a path or \<open>None\<close>), \<open>title\<close> and \<open>slug\<close> only on success.
\<close>

record title_result =
  dark :: "string option"
  light :: "string option"
  rendered_title :: "nat list option"
  rendered_slug :: "string option"

definition no_titles :: title_result where
  "no_titles = \<lparr>dark = None, light = None, rendered_title = None, rendered_slug = None\<rparr>"

definition LIBRE_BODONI_regular :: string where
  "LIBRE_BODONI_regular =
     path_join (path_join (path_join FONTS_DIR ''Libre_Bodoni'') ''static'')
       ''LibreBodoni-Regular.ttf''"

text \<open>The body of the \<open>try\<close> of \<open>render_title_with_libre_bodoni\<close>. The font size is 180,
  the image size the default \<open>(2400, 800)\<close>, the curvature the configured \<open>-0.60\<close>, the
  colours \<open>#111111\<close> and \<open>#FFFFFF\<close>, opaque.\<close>

definition render_title_try ::
  "fpu \<Rightarrow> (font \<Rightarrow> nat \<Rightarrow> int) \<Rightarrow> world \<Rightarrow> nat list \<Rightarrow> string \<Rightarrow> string \<Rightarrow>
   (error + title_result) \<times> world" where
  "render_title_try F bbox w title slug output_dir =
     (let font_path = LIBRE_BODONI_regular;
          font_size = 180;
          curve_strength = - fl F (60 / 100)
      in if \<not> path_exists w font_path then
           (Inr no_titles,
            py_print (py_print w (FontNotFound font_path))
              (FontSearchHint ''assets/fonts/Libre_Bodoni/static/LibreBodoni-Regular.ttf''))
         else
           (case draw_curved_text F bbox w title font_path font_size (2400, 800) curve_strength
                   (17, 17, 17, 255) of
              (Inl e, w1) \<Rightarrow> (Inl e, w1)
            | (Inr img_dark, w1) \<Rightarrow>
           (case draw_curved_text F bbox w1 title font_path font_size (2400, 800) curve_strength
                   (255, 255, 255, 255) of
              (Inl e, w2) \<Rightarrow> (Inl e, w2)
            | (Inr img_light, w2) \<Rightarrow>
           (let dark_path = path_join output_dir (slug @ ''_title_dark.png'');
                light_path = path_join output_dir (slug @ ''_title_light.png'')
            in case image_save w2 img_dark dark_path of
                 Inl e \<Rightarrow> (Inl e, w2)
               | Inr w3 \<Rightarrow>
            (case image_save w3 img_light light_path of
                 Inl e \<Rightarrow> (Inl e, w3)
               | Inr w4 \<Rightarrow>
                   (Inr \<lparr>dark = Some dark_path, light = Some light_path,
                         rendered_title = Some title, rendered_slug = Some slug\<rparr>,
                    py_print (py_print w4 (TitleSaved ''Dark'' (basename dark_path)))
                      (TitleSaved ''Light'' (basename light_path))))))))"

text \<open>
  \<open>generate_kebab_slug\<close> (Unicode normalisation and regular expressions) is the parameter
  \<open>kebab\<close>. It and \<open>os.makedirs(output_dir)\<close> stand before the \<open>try\<close>.
\<close>

definition render_title_with_libre_bodoni ::
  "fpu \<Rightarrow> (font \<Rightarrow> nat \<Rightarrow> int) \<Rightarrow> (nat list \<Rightarrow> string) \<Rightarrow> world \<Rightarrow> nat list \<Rightarrow> string \<Rightarrow>
   error + title_result \<times> world" where
  "render_title_with_libre_bodoni F bbox kebab w title output_dir =
     (let slug = kebab title in
      case makedirs w output_dir of
        Inl e \<Rightarrow> Inl e
      | Inr w0 \<Rightarrow>
          (case render_title_try F bbox (py_print w0 (Rendering title slug)) title slug
                  output_dir of
             (Inl e, w') \<Rightarrow> Inr (no_titles, py_print w' (RenderFailed title e))
           | (Inr r, w') \<Rightarrow> Inr (r, w')))"

section \<open>Functional view of the compositions\<close>

type_synonym fs = "string \<rightharpoonup> entry"

definition layer_on ::
  "fpu \<Rightarrow> int \<times> int \<Rightarrow> int \<Rightarrow> string \<Rightarrow> string \<Rightarrow> entry option \<Rightarrow> image \<Rightarrow> error + image" where
  "layer_on F canvas_size safe_margin placement element ent canvas =
     (case ent of
        None \<Rightarrow> Inr canvas
      | Some (ImageFile opened) \<Rightarrow>
          (case layout_rule placement element of
             Inl e \<Rightarrow> Inl e
           | Inr config \<Rightarrow>
               (case resize_maintaining_aspect F (convert ''RGBA'' opened) config canvas_size of
                  Inl e \<Rightarrow> Inl e
                | Inr resized \<Rightarrow>
                    Inr (paste canvas resized
                          (apply_safe_margins
                             (calculate_position F canvas_size (img_size resized) config ''center'')
                             (img_size resized) canvas_size safe_margin))))
      | Some _ \<Rightarrow> Inl OSError)"

definition blank_canvas :: "int \<times> int \<Rightarrow> image" where
  "blank_canvas canvas_size = image_new ''RGBA'' canvas_size (255, 255, 255, 0)"

definition front_canvas :: "fpu \<Rightarrow> entry option \<Rightarrow> entry option \<Rightarrow> entry option \<Rightarrow> error + image" where
  "front_canvas F main title wordmark =
     (case layer_on F (3600, 4800) 75 ''front'' ''main_image'' main (blank_canvas (3600, 4800)) of
        Inl e \<Rightarrow> Inl e
      | Inr c1 \<Rightarrow>
     (case layer_on F (3600, 4800) 75 ''front'' ''title'' title c1 of
        Inl e \<Rightarrow> Inl e
      | Inr c2 \<Rightarrow> layer_on F (3600, 4800) 75 ''front'' ''wordmark'' wordmark c2))"

definition single_canvas ::
  "fpu \<Rightarrow> key \<Rightarrow> key \<Rightarrow> key \<Rightarrow> entry option \<Rightarrow> error + image option" where
  "single_canvas F template_name placement element ent =
     (case CANVAS_TEMPLATES template_name of
        None \<Rightarrow> Inl KeyError
      | Some template \<Rightarrow>
          (case ent of
             None \<Rightarrow> Inr None
           | Some f \<Rightarrow>
               (case layer_on F (tpl_width template, tpl_height template) (tpl_safe_margin template)
                       placement element ent
                       (blank_canvas (tpl_width template, tpl_height template)) of
                  Inl e \<Rightarrow> Inl e
                | Inr c \<Rightarrow> Inr (Some c))))"

definition can_save :: "string set \<Rightarrow> string \<Rightarrow> bool" where
  "can_save dn output_path \<longleftrightarrow>
     dirname output_path \<noteq> [] \<and> dirname output_path \<notin> dn \<and> output_path \<notin> dn"

definition front_written ::
  "fpu \<Rightarrow> fs \<Rightarrow> path set \<Rightarrow> path \<Rightarrow> path \<Rightarrow> path \<Rightarrow> path \<Rightarrow> image option" where
  "front_written F fs dn m t wm out =
     (case front_canvas F (fs m) (fs t) (fs wm) of
        Inl e \<Rightarrow> None
      | Inr c \<Rightarrow> if can_save dn out then Some c else None)"

definition single_written ::
  "fpu \<Rightarrow> fs \<Rightarrow> path set \<Rightarrow> key \<Rightarrow> key \<Rightarrow> key \<Rightarrow> path \<Rightarrow> path \<Rightarrow> image option" where
  "single_written F fs dn template_name placement element p out =
     (case single_canvas F template_name placement element (fs p) of
        Inr (Some c) \<Rightarrow> if can_save dn out then Some c else None
      | _ \<Rightarrow> None)"

definition put :: "string \<Rightarrow> image option \<Rightarrow> fs \<Rightarrow> fs" where
  "put out wr fs = (case wr of None \<Rightarrow> fs | Some c \<Rightarrow> fs(out \<mapsto> ImageFile c))"

fun is_banner :: "event \<Rightarrow> bool" where
  "is_banner (Composing b sz) = True"
| "is_banner e = False"

definition banners :: "world \<Rightarrow> event list" where
  "banners w = filter is_banner (stdout w)"

definition variant_path :: "path \<Rightarrow> string \<Rightarrow> key \<Rightarrow> path" where
  "variant_path product_dir slug name = path_join product_dir (slug @ ''_'' @ name @ ''.png'')"

definition front_effect ::
  "fpu \<Rightarrow> fs \<Rightarrow> path set \<Rightarrow> path \<Rightarrow> assets \<Rightarrow> key \<Rightarrow> key \<Rightarrow> path \<Rightarrow> image option" where
  "front_effect F fs dn main_image_path asset_urls title_key wordmark_key out =
     (case (asset_get asset_urls title_key, asset_get asset_urls wordmark_key) of
        (Some title, Some wordmark) \<Rightarrow> front_written F fs dn main_image_path title wordmark out
      | _ \<Rightarrow> None)"

definition back_effect :: "fpu \<Rightarrow> fs \<Rightarrow> string set \<Rightarrow> string \<Rightarrow> string \<Rightarrow> image option" where
  "back_effect F fs dn main_image_path out =
     single_written F fs dn ''main'' ''back'' ''main_image'' main_image_path out"

definition sleeve_effect ::
  "fpu \<Rightarrow> fs \<Rightarrow> string set \<Rightarrow> assets \<Rightarrow> string \<Rightarrow> string \<Rightarrow> image option" where
  "sleeve_effect F fs dn asset_urls logo_key out =
     (case asset_get asset_urls logo_key of
        Some logo \<Rightarrow> single_written F fs dn ''sleeve'' ''sleeve'' ''logo'' logo out
      | None \<Rightarrow> None)"

definition record_variant :: "string \<Rightarrow> string \<Rightarrow> image option \<Rightarrow> results \<Rightarrow> results" where
  "record_variant name out wr res = (case wr of None \<Rightarrow> res | Some c \<Rightarrow> res(name \<mapsto> Some out))"

definition front_gate :: "assets \<Rightarrow> string \<Rightarrow> string \<Rightarrow> bool" where
  "front_gate asset_urls title_key wordmark_key \<longleftrightarrow>
     asset_get asset_urls title_key \<noteq> None \<and> asset_get asset_urls wordmark_key \<noteq> None"

type_synonym effect = "string \<times> string \<times> image option"

definition variants_plan ::
  "fpu \<Rightarrow> fs \<Rightarrow> string set \<Rightarrow> string \<Rightarrow> string \<Rightarrow> assets \<Rightarrow> string \<Rightarrow> effect list" where
  "variants_plan F fs dn slug main_image_path asset_urls product_dir =
     (let o1 = variant_path product_dir slug ''front_light'';
          e1 = front_effect F fs dn main_image_path asset_urls ''title_dark'' ''wordmark_dark'' o1;
          fs1 = put o1 e1 fs;
          o2 = variant_path product_dir slug ''front_dark'';
          e2 = front_effect F fs1 dn main_image_path asset_urls ''title_light'' ''wordmark_light'' o2;
          fs2 = put o2 e2 fs1;
          o3 = variant_path product_dir slug ''back'';
          e3 = back_effect F fs2 dn main_image_path o3;
          fs3 = put o3 e3 fs2;
          o4 = variant_path product_dir slug ''sleeve_dark'';
          e4 = sleeve_effect F fs3 dn asset_urls ''logo_dark'' o4;
          fs4 = put o4 e4 fs3;
          o5 = variant_path product_dir slug ''sleeve_light'';
          e5 = sleeve_effect F fs4 dn asset_urls ''logo_light'' o5
      in [(''front_light'', o1, e1), (''front_dark'', o2, e2), (''back'', o3, e3),
          (''sleeve_dark'', o4, e4), (''sleeve_light'', o5, e5)])"

definition plan_files :: "effect list \<Rightarrow> fs \<Rightarrow> fs" where
  "plan_files plan fs = fold (\<lambda>(name, out, wr). put out wr) plan fs"

definition plan_results :: "effect list \<Rightarrow> results" where
  "plan_results plan = fold (\<lambda>(name, out, wr). record_variant name out wr) plan initial_results"

fun pasted :: "pixels \<Rightarrow> pixels list" where
  "pasted (Paste base el sz pos) = pasted base @ [el]"
| "pasted other = []"

definition layer_pixels :: "fpu \<Rightarrow> int \<times> int \<Rightarrow> string \<Rightarrow> string \<Rightarrow> entry option \<Rightarrow> pixels list" where
  "layer_pixels F canvas_size placement element ent =
     (case ent of
        Some (ImageFile opened) \<Rightarrow>
          (case layout_rule placement element of
             Inl e \<Rightarrow> []
           | Inr config \<Rightarrow>
               (case resize_maintaining_aspect F (convert ''RGBA'' opened) config canvas_size of
                  Inl e \<Rightarrow> []
                | Inr resized \<Rightarrow> [pixels resized]))
      | _ \<Rightarrow> [])"

definition element_ok :: "fpu \<Rightarrow> int \<times> int \<Rightarrow> string \<Rightarrow> string \<Rightarrow> entry option \<Rightarrow> bool" where
  "element_ok F canvas_size placement element ent =
     (case ent of
        None \<Rightarrow> True
      | Some (ImageFile opened) \<Rightarrow>
          (case layout_rule placement element of
             Inl e \<Rightarrow> False
           | Inr config \<Rightarrow>
               (case resize_maintaining_aspect F (convert ''RGBA'' opened) config canvas_size of
                  Inl e \<Rightarrow> False
                | Inr resized \<Rightarrow> True))
      | Some other \<Rightarrow> False)"

definition demo_world :: world where
  "demo_world =
     \<lparr>files =
        [''upscaled/art.png'' \<mapsto> ImageFile \<lparr>width = 2000, height = 2000, mode = ''RGBA'', pixels = Raw 0\<rparr>,
         ''artifacts/t_dark.png'' \<mapsto> ImageFile \<lparr>width = 2400, height = 800, mode = ''RGBA'', pixels = Raw 1\<rparr>,
         ''assets/too_dark.png'' \<mapsto> ImageFile \<lparr>width = 800, height = 300, mode = ''RGBA'', pixels = Raw 2\<rparr>,
         ''assets/logo_dark.png'' \<mapsto> ImageFile \<lparr>width = 600, height = 600, mode = ''RGB'', pixels = Raw 3\<rparr>,
         ''upscaled/notes.txt'' \<mapsto> OtherFile],
      denied = {''locked/front.png''},
      stdout = []\<rparr>"

definition same_inputs :: "string \<Rightarrow> assets \<Rightarrow> fs \<Rightarrow> fs \<Rightarrow> bool" where
  "same_inputs main_image_path asset_urls fs fs' \<longleftrightarrow>
     fs main_image_path = fs' main_image_path \<and>
     (\<forall>k p. asset_get asset_urls k = Some p \<longrightarrow> fs p = fs' p)"

definition demo_assets :: assets where
  "demo_assets =
     [''title_dark'' \<mapsto> Some ''artifacts/t_dark.png'',
      ''wordmark_dark'' \<mapsto> Some ''assets/too_dark.png'',
      ''title_light'' \<mapsto> Some ''artifacts/missing.png'',
      ''wordmark_light'' \<mapsto> None,
      ''logo_dark'' \<mapsto> Some ''assets/logo_dark.png'']"

section \<open>Notions for the curved titles\<close>

definition loaded_font :: "world \<Rightarrow> path \<Rightarrow> int \<Rightarrow> font" where
  "loaded_font w font_path font_size =
     (case truetype w font_path font_size of Inr f \<Rightarrow> f | Inl e \<Rightarrow> DefaultFont)"

text \<open>
  What round-to-nearest on doubles guarantees besides: a double is its own rounding, the
  rounding is symmetric about zero, the halves of the integers up to \<open>2^53\<close> are doubles,
  and \<open>math.pi\<close> lies between 2 and 4.
\<close>

definition double_like :: "fpu \<Rightarrow> bool" where
  "double_like F \<longleftrightarrow>
     ieee_like F \<and>
     (\<forall>x. fl F (fl F x) = fl F x) \<and>
     (\<forall>x. fl F (- x) = - fl F x) \<and>
     (\<forall>k::int. \<bar>k\<bar> \<le> 2 ^ 53 \<longrightarrow> fl F (of_int k / 2) = of_int k / 2) \<and>
     2 \<le> fpi F \<and> fpi F \<le> 4"

text \<open>
  The placement of one character in the words of the description, every operation being
  the one of the floating-point unit: the angle is \<open>(offset + char_width / 2) / radius\<close>,
  the point is \<open>x = center_x + radius sin angle\<close>, \<open>y = center_y \<plusminus> radius (1 - cos angle)\<close>
  (minus for a negative curvature), the tile is rotated by the angle in degrees.
\<close>

definition spec_place ::
  "fpu \<Rightarrow> int \<Rightarrow> int \<Rightarrow> int \<Rightarrow> real \<Rightarrow> real \<Rightarrow> real \<Rightarrow> nat \<Rightarrow> int \<Rightarrow> glyph" where
  "spec_place F font_size center_x center_y curvature radius offset ch char_width =
     (let angle = fl F ((offset + real_of_int char_width / 2) / radius);
          x = fl F (real_of_int center_x + fl F (radius * fsin F angle));
          y = (if curvature < 0
               then fl F (real_of_int center_y - fl F (radius * fl F (1 - fcos F angle)))
               else fl F (real_of_int center_y + fl F (radius * fl F (1 - fcos F angle))))
      in \<lparr>g_char = ch, g_angle = angle, g_x = x, g_y = y,
          g_rotation = fl F (angle * fl F (180 / fpi F)),
          g_dest = (py_int (fl F (x - real_of_int font_size)),
                    py_int (fl F (y - real_of_int font_size)))\<rparr>)"

text \<open>
  The \<open>i\<close>-th tile of a text in the words of the description: the radius is
  \<open>text_width / (2\<pi>\<bar>c\<bar>)\<close>, where \<open>text_width\<close> is the sum of the widths of the characters,
  and the offset of a character is the sum of the widths of the characters before it,
  counted from \<open>- text_width / 2\<close>.
\<close>

definition spec_tile ::
  "fpu \<Rightarrow> (nat \<Rightarrow> int) \<Rightarrow> int \<Rightarrow> int \<Rightarrow> int \<Rightarrow> real \<Rightarrow> nat list \<Rightarrow> nat \<Rightarrow> glyph" where
  "spec_tile F char_w font_size center_x center_y curvature text i =
     (let text_width = real_of_int (sum_list (map char_w text));
          radius = fl F (text_width / fl F (fl F (2 * fpi F) * \<bar>curvature\<bar>));
          offset = - text_width / 2 + real_of_int (sum_list (map char_w (take i text)))
      in spec_place F font_size center_x center_y curvature radius offset (text ! i)
           (char_w (text ! i)))"

definition broken_font_world :: world where
  "broken_font_world = demo_world\<lparr>files := (files demo_world)(LIBRE_BODONI_regular \<mapsto> OtherFile)\<rparr>"

section \<open>Notions for resizing\<close>

text \<open>
  The target dimension in the words of the description: the percentage of the canvas
  dimension, rounded to the nearest integer.
\<close>

definition spec_target :: "int \<Rightarrow> int \<Rightarrow> int" where
  "spec_target canvas_dim percent = round (real_of_int canvas_dim * real_of_int percent / 100)"


section \<open>Safe margins\<close>

text \<open>
  C1. For every position, element size, canvas size and margin, the coordinates returned by
  \<open>apply_safe_margins\<close> are at least \<open>margin\<close> on each axis; on an axis where the element
  fits the safe area (\<open>elem_dim \<le> canvas_dim - 2 * margin\<close>) the far edge stays inside it
  (\<open>x' + elem_w \<le> canvas_w - margin\<close>); on an axis where the element is larger than the safe
  area the coordinate is exactly \<open>margin\<close>.
\<close>

theorem apply_safe_margins_bounds:
  assumes "apply_safe_margins (x, y) (elem_w, elem_h) (canvas_w, canvas_h) margin = (x', y')"
  shows "margin \<le> x' \<and> margin \<le> y' \<and>
         (elem_w \<le> canvas_w - 2 * margin \<longrightarrow> x' + elem_w \<le> canvas_w - margin) \<and>
         (elem_h \<le> canvas_h - 2 * margin \<longrightarrow> y' + elem_h \<le> canvas_h - margin) \<and>
         (canvas_w - 2 * margin < elem_w \<longrightarrow> x' = margin) \<and>
         (canvas_h - 2 * margin < elem_h \<longrightarrow> y' = margin)"
  using assms by (auto simp: apply_safe_margins_def)

theorem apply_safe_margins_bounds_witness:
  "apply_safe_margins (3000, 960) (1620, 5000) (3600, 4800) 75 = (1905, 75) \<and>
   (1620::int) \<le> 3600 - 2 * 75 \<and> (1905::int) + 1620 \<le> 3600 - 75 \<and>
   (4800::int) - 2 * 75 < 5000"
  using apply_safe_margins_bounds [of 3000 960 1620 5000 3600 4800 75 1905 75]
  by (simp add: apply_safe_margins_def)

section \<open>Compositions as functions of the files read\<close>

lemma files_py_print [simp]: "files (py_print w e) = files w"
  and denied_py_print [simp]: "denied (py_print w e) = denied w"
  and stdout_py_print [simp]: "stdout (py_print w e) = stdout w @ [e]"
  by (simp_all add: py_print_def)

lemma path_exists_py_print [simp]: "path_exists (py_print w e) p = path_exists w p"
  by (simp add: path_exists_def)

lemma main_template [simp]:
  "CANVAS_TEMPLATES ''main'' = Some \<lparr>tpl_width = 3600, tpl_height = 4800, tpl_dpi = 300, tpl_safe_margin = 75\<rparr>"
  by (simp add: CANVAS_TEMPLATES_def)

lemma sleeve_template [simp]:
  "CANVAS_TEMPLATES ''sleeve'' = Some \<lparr>tpl_width = 900, tpl_height = 4200, tpl_dpi = 300, tpl_safe_margin = 75\<rparr>"
  by (simp add: CANVAS_TEMPLATES_def)

lemma paste_shape [simp]:
  "width (paste canvas im pos) = width canvas"
  "height (paste canvas im pos) = height canvas"
  "mode (paste canvas im pos) = mode canvas"
  by (simp_all add: paste_def)

lemma banners_py_print:
  "banners (py_print w e) = banners w @ (if is_banner e then [e] else [])"
  by (simp add: banners_def)

lemma banners_files_update [simp]: "banners (w\<lparr>files := f\<rparr>) = banners w"
  by (simp add: banners_def)

lemma optional_layer_fst:
  "fst (optional_layer F cs m pl el l1 l2 path (canvas, w)) = layer_on F cs m pl el (files w path) canvas"
  by (auto simp: optional_layer_def place_layer_def layer_on_def image_open_def path_exists_def Let_def
      split: option.splits entry.splits sum.splits)

lemma optional_layer_snd:
  "files (snd (optional_layer F cs m pl el l1 l2 path (canvas, w))) = files w"
  "denied (snd (optional_layer F cs m pl el l1 l2 path (canvas, w))) = denied w"
  "banners (snd (optional_layer F cs m pl el l1 l2 path (canvas, w))) = banners w"
  by (auto simp: optional_layer_def banners_py_print split: sum.splits prod.splits)

lemma required_layer_fst:
  "fst (required_layer F cs m pl el l1 l2 path (canvas, w)) =
     (case files w path of
        None \<Rightarrow> Inr None
      | Some f \<Rightarrow> (case layer_on F cs m pl el (files w path) canvas of
                     Inl e \<Rightarrow> Inl e | Inr c \<Rightarrow> Inr (Some c)))"
  by (auto simp: required_layer_def place_layer_def layer_on_def image_open_def path_exists_def Let_def
      split: option.splits entry.splits sum.splits)

lemma required_layer_snd:
  "files (snd (required_layer F cs m pl el l1 l2 path (canvas, w))) = files w"
  "denied (snd (required_layer F cs m pl el l1 l2 path (canvas, w))) = denied w"
  "banners (snd (required_layer F cs m pl el l1 l2 path (canvas, w))) = banners w"
  by (auto simp: required_layer_def banners_py_print split: sum.splits prod.splits)

lemma save_composition_eq:
  "save_composition w canvas out l =
     (if can_save (denied w) out
      then Inr (py_print (w\<lparr>files := (files w)(out \<mapsto> ImageFile canvas)\<rparr>) (Saved l (basename out)))
      else Inl OSError)"
  by (auto simp: save_composition_def makedirs_def image_save_def can_save_def)

lemmas compose_simps = Let_def split_beta optional_layer_fst optional_layer_snd
  required_layer_fst required_layer_snd save_composition_eq banners_py_print

lemma compose_front_try_fst:
  "fst (compose_front_try F w m t wm out) =
     (case front_canvas F (files w m) (files w t) (files w wm) of
        Inl e \<Rightarrow> Inl e
      | Inr c \<Rightarrow> if can_save (denied w) out then Inr True else Inl OSError)"
  unfolding compose_front_try_def front_canvas_def blank_canvas_def
  by (simp add: compose_simps split: sum.splits)

lemma compose_front_try_files:
  "files (snd (compose_front_try F w m t wm out)) =
     put out (front_written F (files w) (denied w) m t wm out) (files w)"
  unfolding compose_front_try_def front_written_def front_canvas_def blank_canvas_def put_def
  by (simp add: compose_simps split: sum.splits)

lemma compose_front_try_denied:
  "denied (snd (compose_front_try F w m t wm out)) = denied w"
  unfolding compose_front_try_def
  by (simp add: compose_simps split: sum.splits)

lemma compose_front_try_banners:
  "banners (snd (compose_front_try F w m t wm out)) = banners w @ [Composing ''FRONT'' (3600, 4800)]"
  unfolding compose_front_try_def
  by (simp add: compose_simps split: sum.splits)

lemma compose_front_fst:
  "fst (compose_front F w m t wm out) = (front_written F (files w) (denied w) m t wm out \<noteq> None)"
  by (simp add: compose_front_def split_beta compose_front_try_fst front_written_def split: sum.splits)

lemma compose_front_files:
  "files (snd (compose_front F w m t wm out)) =
     put out (front_written F (files w) (denied w) m t wm out) (files w)"
  by (simp add: compose_front_def split_beta compose_front_try_files split: sum.splits)

lemma compose_front_denied:
  "denied (snd (compose_front F w m t wm out)) = denied w"
  by (simp add: compose_front_def split_beta compose_front_try_denied split: sum.splits)

lemma compose_front_banners:
  "banners (snd (compose_front F w m t wm out)) = banners w @ [Composing ''FRONT'' (3600, 4800)]"
  by (simp add: compose_front_def split_beta compose_front_try_banners banners_py_print split: sum.splits)

lemma compose_single_try_fst:
  "fst (compose_single_try F w tn b pl el l1 l2 l3 p out) =
     (case single_canvas F tn pl el (files w p) of
        Inl e \<Rightarrow> Inl e
      | Inr None \<Rightarrow> Inr False
      | Inr (Some c) \<Rightarrow> if can_save (denied w) out then Inr True else Inl OSError)"
  unfolding compose_single_try_def single_canvas_def blank_canvas_def
  by (simp add: compose_simps split: sum.splits option.splits)

lemma compose_single_try_files:
  "files (snd (compose_single_try F w tn b pl el l1 l2 l3 p out)) =
     put out (single_written F (files w) (denied w) tn pl el p out) (files w)"
  unfolding compose_single_try_def single_written_def single_canvas_def blank_canvas_def put_def
  by (simp add: compose_simps split: sum.splits option.splits)

lemma compose_single_try_denied:
  "denied (snd (compose_single_try F w tn b pl el l1 l2 l3 p out)) = denied w"
  unfolding compose_single_try_def
  by (simp add: compose_simps split: sum.splits option.splits)

lemma compose_single_try_banners:
  "banners (snd (compose_single_try F w tn b pl el l1 l2 l3 p out)) =
     (case CANVAS_TEMPLATES tn of None \<Rightarrow> banners w
      | Some T \<Rightarrow> banners w @ [Composing b (tpl_width T, tpl_height T)])"
  unfolding compose_single_try_def
  by (simp add: compose_simps split: sum.splits option.splits)

lemma compose_back_fst:
  "fst (compose_back F w m out) =
     (single_written F (files w) (denied w) ''main'' ''back'' ''main_image'' m out \<noteq> None)"
  by (simp add: compose_back_def split_beta compose_single_try_fst single_written_def
      split: sum.splits option.splits)

lemma compose_back_files:
  "files (snd (compose_back F w m out)) =
     put out (single_written F (files w) (denied w) ''main'' ''back'' ''main_image'' m out) (files w)"
  by (simp add: compose_back_def split_beta compose_single_try_files split: sum.splits)

lemma compose_back_denied: "denied (snd (compose_back F w m out)) = denied w"
  by (simp add: compose_back_def split_beta compose_single_try_denied split: sum.splits)

lemma compose_back_banners:
  "banners (snd (compose_back F w m out)) = banners w @ [Composing ''BACK'' (3600, 4800)]"
  by (simp add: compose_back_def split_beta compose_single_try_banners banners_py_print split: sum.splits)

lemma compose_sleeve_fst:
  "fst (compose_sleeve F w p out) =
     (single_written F (files w) (denied w) ''sleeve'' ''sleeve'' ''logo'' p out \<noteq> None)"
  by (simp add: compose_sleeve_def split_beta compose_single_try_fst single_written_def
      split: sum.splits option.splits)

lemma compose_sleeve_files:
  "files (snd (compose_sleeve F w p out)) =
     put out (single_written F (files w) (denied w) ''sleeve'' ''sleeve'' ''logo'' p out) (files w)"
  by (simp add: compose_sleeve_def split_beta compose_single_try_files split: sum.splits)

lemma compose_sleeve_denied: "denied (snd (compose_sleeve F w p out)) = denied w"
  by (simp add: compose_sleeve_def split_beta compose_single_try_denied split: sum.splits)

lemma compose_sleeve_banners:
  "banners (snd (compose_sleeve F w p out)) = banners w @ [Composing ''SLEEVE'' (900, 4200)]"
  by (simp add: compose_sleeve_def split_beta compose_single_try_banners banners_py_print split: sum.splits)

lemma front_variant_fst:
  "fst (front_variant F slug pd m a name tk wk rw) =
     record_variant name (variant_path pd slug name)
       (front_effect F (files (snd rw)) (denied (snd rw)) m a tk wk (variant_path pd slug name)) (fst rw)"
  by (cases rw)
     (simp add: front_variant_def front_effect_def record_variant_def variant_path_def Let_def split_beta
        compose_front_fst split: option.splits bool.splits)

lemma front_variant_files:
  "files (snd (front_variant F slug pd m a name tk wk rw)) =
     put (variant_path pd slug name)
       (front_effect F (files (snd rw)) (denied (snd rw)) m a tk wk (variant_path pd slug name))
       (files (snd rw))"
  by (cases rw)
     (simp add: front_variant_def front_effect_def variant_path_def Let_def split_beta
        compose_front_files put_def split: option.splits bool.splits)

lemma front_variant_denied:
  "denied (snd (front_variant F slug pd m a name tk wk rw)) = denied (snd rw)"
  by (cases rw)
     (simp add: front_variant_def Let_def split_beta compose_front_denied split: option.splits bool.splits)

lemma front_variant_banners:
  "banners (snd (front_variant F slug pd m a name tk wk rw)) =
     banners (snd rw) @ (if front_gate a tk wk then [Composing ''FRONT'' (3600, 4800)] else [])"
  by (cases rw)
     (simp add: front_variant_def front_gate_def Let_def split_beta compose_front_banners
        split: option.splits bool.splits)

lemma back_variant_fst:
  "fst (back_variant F slug pd m rw) =
     record_variant ''back'' (variant_path pd slug ''back'')
       (back_effect F (files (snd rw)) (denied (snd rw)) m (variant_path pd slug ''back'')) (fst rw)"
  by (cases rw)
     (simp add: back_variant_def back_effect_def record_variant_def variant_path_def Let_def split_beta
        compose_back_fst split: option.splits bool.splits)

lemma back_variant_files:
  "files (snd (back_variant F slug pd m rw)) =
     put (variant_path pd slug ''back'')
       (back_effect F (files (snd rw)) (denied (snd rw)) m (variant_path pd slug ''back''))
       (files (snd rw))"
  by (cases rw)
     (simp add: back_variant_def back_effect_def variant_path_def Let_def split_beta
        compose_back_files split: option.splits bool.splits)

lemma back_variant_denied:
  "denied (snd (back_variant F slug pd m rw)) = denied (snd rw)"
  by (cases rw)
     (simp add: back_variant_def Let_def split_beta compose_back_denied split: option.splits bool.splits)

lemma back_variant_banners:
  "banners (snd (back_variant F slug pd m rw)) = banners (snd rw) @ [Composing ''BACK'' (3600, 4800)]"
  by (cases rw)
     (simp add: back_variant_def Let_def split_beta compose_back_banners split: option.splits bool.splits)

lemma sleeve_variant_fst:
  "fst (sleeve_variant F slug pd a name lk rw) =
     record_variant name (variant_path pd slug name)
       (sleeve_effect F (files (snd rw)) (denied (snd rw)) a lk (variant_path pd slug name)) (fst rw)"
  by (cases rw)
     (simp add: sleeve_variant_def sleeve_effect_def record_variant_def variant_path_def Let_def split_beta
        compose_sleeve_fst split: option.splits bool.splits)

lemma sleeve_variant_files:
  "files (snd (sleeve_variant F slug pd a name lk rw)) =
     put (variant_path pd slug name)
       (sleeve_effect F (files (snd rw)) (denied (snd rw)) a lk (variant_path pd slug name))
       (files (snd rw))"
  by (cases rw)
     (simp add: sleeve_variant_def sleeve_effect_def variant_path_def Let_def split_beta
        compose_sleeve_files put_def split: option.splits bool.splits)

lemma sleeve_variant_denied:
  "denied (snd (sleeve_variant F slug pd a name lk rw)) = denied (snd rw)"
  by (cases rw)
     (simp add: sleeve_variant_def Let_def split_beta compose_sleeve_denied split: option.splits bool.splits)

lemma sleeve_variant_banners:
  "banners (snd (sleeve_variant F slug pd a name lk rw)) =
     banners (snd rw) @ (if asset_get a lk \<noteq> None then [Composing ''SLEEVE'' (900, 4200)] else [])"
  by (cases rw)
     (simp add: sleeve_variant_def Let_def split_beta compose_sleeve_banners
        split: option.splits bool.splits)

lemmas variant_simps =
  front_variant_fst front_variant_files front_variant_denied front_variant_banners
  back_variant_fst back_variant_files back_variant_denied back_variant_banners
  sleeve_variant_fst sleeve_variant_files sleeve_variant_denied sleeve_variant_banners

lemma create_all_Inl:
  assumes "path_join output_dir slug = [] \<or> path_join output_dir slug \<in> denied w"
  shows "create_all_variants_for_product F w slug m a output_dir = Inl OSError"
  using assms by (auto simp: create_all_variants_for_product_def makedirs_def Let_def)

lemma create_all_Inr:
  assumes "path_join output_dir slug \<noteq> []" "path_join output_dir slug \<notin> denied w"
  shows "\<exists>w'. create_all_variants_for_product F w slug m a output_dir =
           Inr (plan_results (variants_plan F (files w) (denied w) slug m a (path_join output_dir slug)), w') \<and>
         files w' = plan_files (variants_plan F (files w) (denied w) slug m a (path_join output_dir slug)) (files w) \<and>
         denied w' = denied w \<and>
         banners w' = banners w @
           (if front_gate a ''title_dark'' ''wordmark_dark'' then [Composing ''FRONT'' (3600, 4800)] else []) @
           (if front_gate a ''title_light'' ''wordmark_light'' then [Composing ''FRONT'' (3600, 4800)] else []) @
           [Composing ''BACK'' (3600, 4800)] @
           (if asset_get a ''logo_dark'' \<noteq> None then [Composing ''SLEEVE'' (900, 4200)] else []) @
           (if asset_get a ''logo_light'' \<noteq> None then [Composing ''SLEEVE'' (900, 4200)] else [])"
  using assms
  by (simp add: create_all_variants_for_product_def makedirs_def Let_def variant_simps
      variants_plan_def plan_files_def plan_results_def banners_py_print)

lemma layer_on_shape:
  assumes "layer_on F cs m pl el ent canvas = Inr c"
  shows "width c = width canvas \<and> height c = height canvas \<and> mode c = mode canvas"
  using assms by (auto simp: layer_on_def split: option.splits entry.splits sum.splits)

lemma front_canvas_shape:
  assumes "front_canvas F a b c = Inr x"
  shows "width x = 3600 \<and> height x = 4800 \<and> mode x = ''RGBA''"
proof -
  from assms obtain c1 c2 where
    1: "layer_on F (3600, 4800) 75 ''front'' ''main_image'' a (blank_canvas (3600, 4800)) = Inr c1" and
    2: "layer_on F (3600, 4800) 75 ''front'' ''title'' b c1 = Inr c2" and
    3: "layer_on F (3600, 4800) 75 ''front'' ''wordmark'' c c2 = Inr x"
    by (auto simp: front_canvas_def split: sum.splits)
  from layer_on_shape [OF 1] layer_on_shape [OF 2] layer_on_shape [OF 3]
  show ?thesis by (simp add: blank_canvas_def image_new_def)
qed

lemma single_canvas_shape:
  assumes "single_canvas F tn pl el ent = Inr (Some c)"
  shows "\<exists>T. CANVAS_TEMPLATES tn = Some T \<and> width c = tpl_width T \<and> height c = tpl_height T \<and>
             mode c = ''RGBA''"
  using assms
  by (auto simp: single_canvas_def blank_canvas_def image_new_def
      split: option.splits sum.splits dest!: layer_on_shape)

lemma front_written_shape:
  assumes "front_written F fs dn m t wm out = Some c"
  shows "width c = 3600 \<and> height c = 4800 \<and> mode c = ''RGBA''"
  using assms by (auto simp: front_written_def split: sum.splits if_splits dest: front_canvas_shape)

lemma single_written_shape:
  assumes "single_written F fs dn tn pl el p out = Some c"
  shows "\<exists>T. CANVAS_TEMPLATES tn = Some T \<and> width c = tpl_width T \<and> height c = tpl_height T \<and>
             mode c = ''RGBA''"
  using assms
  by (auto simp: single_written_def split: sum.splits option.splits if_splits dest: single_canvas_shape)

text \<open>
  C2. Whenever \<open>compose_front\<close>, \<open>compose_back\<close> or \<open>compose_sleeve\<close> returns True, the file
  at the output path is an RGBA image whose size is that of the canvas template used: the
  \<open>main\<close> template, 3600 by 4800, for front and back, the \<open>sleeve\<close> template, 900 by 4200,
  for the sleeve; whatever the input files hold.
\<close>

theorem composition_has_template_size:
  "(compose_front F w m t wm out = (True, w') \<longrightarrow>
      (\<exists>c T. files w' out = Some (ImageFile c) \<and> CANVAS_TEMPLATES ''main'' = Some T \<and>
             mode c = ''RGBA'' \<and> img_size c = (tpl_width T, tpl_height T) \<and>
             img_size c = (3600, 4800))) \<and>
   (compose_back F w m out = (True, w') \<longrightarrow>
      (\<exists>c T. files w' out = Some (ImageFile c) \<and> CANVAS_TEMPLATES ''main'' = Some T \<and>
             mode c = ''RGBA'' \<and> img_size c = (tpl_width T, tpl_height T) \<and>
             img_size c = (3600, 4800))) \<and>
   (compose_sleeve F w p out = (True, w') \<longrightarrow>
      (\<exists>c T. files w' out = Some (ImageFile c) \<and> CANVAS_TEMPLATES ''sleeve'' = Some T \<and>
             mode c = ''RGBA'' \<and> img_size c = (tpl_width T, tpl_height T) \<and>
             img_size c = (900, 4200)))"
proof (intro conjI impI)
  assume a: "compose_front F w m t wm out = (True, w')"
  from a have "fst (compose_front F w m t wm out) = True" by simp
  then obtain c where c: "front_written F (files w) (denied w) m t wm out = Some c"
    by (auto simp: compose_front_fst)
  from a have "files w' = files (snd (compose_front F w m t wm out))" by simp
  with c have "files w' out = Some (ImageFile c)" by (simp add: compose_front_files put_def)
  with front_written_shape [OF c]
  show "\<exists>c T. files w' out = Some (ImageFile c) \<and> CANVAS_TEMPLATES ''main'' = Some T \<and>
             mode c = ''RGBA'' \<and> img_size c = (tpl_width T, tpl_height T) \<and>
             img_size c = (3600, 4800)"
    by (simp add: img_size_def)
next
  assume a: "compose_back F w m out = (True, w')"
  from a have "fst (compose_back F w m out) = True" by simp
  then obtain c where c: "single_written F (files w) (denied w) ''main'' ''back'' ''main_image'' m out = Some c"
    by (auto simp: compose_back_fst)
  from a have "files w' = files (snd (compose_back F w m out))" by simp
  with c have "files w' out = Some (ImageFile c)" by (simp add: compose_back_files put_def)
  with single_written_shape [OF c]
  show "\<exists>c T. files w' out = Some (ImageFile c) \<and> CANVAS_TEMPLATES ''main'' = Some T \<and>
             mode c = ''RGBA'' \<and> img_size c = (tpl_width T, tpl_height T) \<and>
             img_size c = (3600, 4800)"
    by (auto simp: img_size_def)
next
  assume a: "compose_sleeve F w p out = (True, w')"
  from a have "fst (compose_sleeve F w p out) = True" by simp
  then obtain c where c: "single_written F (files w) (denied w) ''sleeve'' ''sleeve'' ''logo'' p out = Some c"
    by (auto simp: compose_sleeve_fst)
  from a have "files w' = files (snd (compose_sleeve F w p out))" by simp
  with c have "files w' out = Some (ImageFile c)" by (simp add: compose_sleeve_files put_def)
  with single_written_shape [OF c]
  show "\<exists>c T. files w' out = Some (ImageFile c) \<and> CANVAS_TEMPLATES ''sleeve'' = Some T \<and>
             mode c = ''RGBA'' \<and> img_size c = (tpl_width T, tpl_height T) \<and>
             img_size c = (900, 4200)"
    by (auto simp: img_size_def)
qed

lemma exact_simps [simp]:
  "fl exact x = x" "fsin exact = sin" "fcos exact = cos" "fpi exact = pi"
  by (simp_all add: exact_def)

lemma layout_rule_simps [simp]:
  "layout_rule ''front'' ''main_image'' = Inr [''width_percent'' \<mapsto> 45, ''top_percent'' \<mapsto> 20]"
  "layout_rule ''front'' ''title'' = Inr [''width_percent'' \<mapsto> 60, ''top_percent'' \<mapsto> 55]"
  "layout_rule ''front'' ''wordmark'' = Inr [''width_percent'' \<mapsto> 25, ''top_percent'' \<mapsto> 75]"
  "layout_rule ''back'' ''main_image'' = Inr [''width_percent'' \<mapsto> 80, ''top_percent'' \<mapsto> 50]"
  "layout_rule ''sleeve'' ''logo'' = Inr [''height_percent'' \<mapsto> 25, ''top_percent'' \<mapsto> 50]"
  by (simp_all add: layout_rule_def LAYOUT_CONFIG_def)

lemmas eval_simps = layer_on_def resize_maintaining_aspect_def int_truediv_def to_float_def
  py_int_def pil_resize_def img_size_def convert_def paste_def calculate_position_def
  apply_safe_margins_def blank_canvas_def image_new_def Let_def

lemma pasted_layer_on:
  assumes "layer_on F cs m pl el ent canvas = Inr c"
  shows "pasted (pixels c) = pasted (pixels canvas) @ layer_pixels F cs pl el ent"
  using assms
  by (auto simp: layer_on_def layer_pixels_def paste_def split: option.splits entry.splits sum.splits)

lemma layer_on_ok:
  assumes "element_ok F cs pl el ent"
  shows "\<exists>c. layer_on F cs m pl el ent canvas = Inr c"
  using assms
  by (auto simp: layer_on_def element_ok_def split: option.splits entry.splits sum.splits)

lemma front_canvas_ok:
  assumes "element_ok F (3600, 4800) ''front'' ''main_image'' a"
    and "element_ok F (3600, 4800) ''front'' ''title'' b"
    and "element_ok F (3600, 4800) ''front'' ''wordmark'' c"
  shows "\<exists>x. front_canvas F a b c = Inr x \<and>
             pasted (pixels x) =
               layer_pixels F (3600, 4800) ''front'' ''main_image'' a @
               layer_pixels F (3600, 4800) ''front'' ''title'' b @
               layer_pixels F (3600, 4800) ''front'' ''wordmark'' c"
proof -
  from layer_on_ok [OF assms(1)] obtain c1 where
    1: "layer_on F (3600, 4800) 75 ''front'' ''main_image'' a (blank_canvas (3600, 4800)) = Inr c1"
    by blast
  from layer_on_ok [OF assms(2)] obtain c2 where
    2: "layer_on F (3600, 4800) 75 ''front'' ''title'' b c1 = Inr c2" by blast
  from layer_on_ok [OF assms(3)] obtain c3 where
    3: "layer_on F (3600, 4800) 75 ''front'' ''wordmark'' c c2 = Inr c3" by blast
  have "front_canvas F a b c = Inr c3" by (simp add: front_canvas_def 1 2 3)
  moreover have "pasted (pixels (blank_canvas (3600, 4800))) = []"
    by (simp add: blank_canvas_def image_new_def)
  ultimately show ?thesis
    using pasted_layer_on [OF 1] pasted_layer_on [OF 2] pasted_layer_on [OF 3] by simp
qed

text \<open>
  C6, as amended. \<open>compose_back\<close> with a missing artwork path returns False and leaves the
  files as they were. \<open>compose_front\<close> returns True and writes at the output path a canvas
  whose pasted layers are exactly those of the inputs that exist, in the order artwork,
  title, wordmark, provided that every input that exists decodes and resizes
  (\<open>element_ok\<close>) and that the output can be saved (\<open>can_save\<close>).
\<close>

theorem missing_inputs:
  "(\<not> path_exists w m \<longrightarrow>
      fst (compose_back F w m out) = False \<and> files (snd (compose_back F w m out)) = files w) \<and>
   (element_ok F (3600, 4800) ''front'' ''main_image'' (files w m) \<and>
    element_ok F (3600, 4800) ''front'' ''title'' (files w t) \<and>
    element_ok F (3600, 4800) ''front'' ''wordmark'' (files w wm) \<and>
    can_save (denied w) out \<longrightarrow>
      fst (compose_front F w m t wm out) = True \<and>
      (\<exists>c. files (snd (compose_front F w m t wm out)) = (files w)(out \<mapsto> ImageFile c) \<and>
           pasted (pixels c) =
             layer_pixels F (3600, 4800) ''front'' ''main_image'' (files w m) @
             layer_pixels F (3600, 4800) ''front'' ''title'' (files w t) @
             layer_pixels F (3600, 4800) ''front'' ''wordmark'' (files w wm)))"
proof (intro conjI impI)
  assume "\<not> path_exists w m"
  then have "single_written F (files w) (denied w) ''main'' ''back'' ''main_image'' m out = None"
    by (simp add: single_written_def single_canvas_def path_exists_def)
  then show "fst (compose_back F w m out) = False"
    and "files (snd (compose_back F w m out)) = files w"
    by (simp_all add: compose_back_fst compose_back_files put_def)
next
  assume a: "element_ok F (3600, 4800) ''front'' ''main_image'' (files w m) \<and>
    element_ok F (3600, 4800) ''front'' ''title'' (files w t) \<and>
    element_ok F (3600, 4800) ''front'' ''wordmark'' (files w wm) \<and>
    can_save (denied w) out"
  then obtain x where x: "front_canvas F (files w m) (files w t) (files w wm) = Inr x"
    and p: "pasted (pixels x) =
             layer_pixels F (3600, 4800) ''front'' ''main_image'' (files w m) @
             layer_pixels F (3600, 4800) ''front'' ''title'' (files w t) @
             layer_pixels F (3600, 4800) ''front'' ''wordmark'' (files w wm)"
    using front_canvas_ok by blast
  from a x have wr: "front_written F (files w) (denied w) m t wm out = Some x"
    by (simp add: front_written_def)
  then show "fst (compose_front F w m t wm out) = True" by (simp add: compose_front_fst)
  from wr p show "\<exists>c. files (snd (compose_front F w m t wm out)) = (files w)(out \<mapsto> ImageFile c) \<and>
           pasted (pixels c) =
             layer_pixels F (3600, 4800) ''front'' ''main_image'' (files w m) @
             layer_pixels F (3600, 4800) ''front'' ''title'' (files w t) @
             layer_pixels F (3600, 4800) ''front'' ''wordmark'' (files w wm)"
    by (intro exI [of _ x]) (simp add: compose_front_files put_def)
qed

lemma demo_files [simp]:
  "files demo_world ''upscaled/art.png'' =
     Some (ImageFile \<lparr>width = 2000, height = 2000, mode = ''RGBA'', pixels = Raw 0\<rparr>)"
  "files demo_world ''artifacts/t_dark.png'' =
     Some (ImageFile \<lparr>width = 2400, height = 800, mode = ''RGBA'', pixels = Raw 1\<rparr>)"
  "files demo_world ''assets/too_dark.png'' =
     Some (ImageFile \<lparr>width = 800, height = 300, mode = ''RGBA'', pixels = Raw 2\<rparr>)"
  "files demo_world ''upscaled/notes.txt'' = Some OtherFile"
  "files demo_world ''upscaled/missing.png'' = None"
  "files demo_world ''artifacts/missing.png'' = None"
  "denied demo_world = {''locked/front.png''}"
  by (simp_all add: demo_world_def)

theorem missing_inputs_witness:
  "\<not> path_exists demo_world ''upscaled/missing.png'' \<and>
   fst (compose_back exact demo_world ''upscaled/missing.png'' ''artifacts/x/x_back.png'') = False \<and>
   files (snd (compose_back exact demo_world ''upscaled/missing.png'' ''artifacts/x/x_back.png''))
     = files demo_world \<and>
   path_exists demo_world ''upscaled/art.png'' \<and>
   \<not> path_exists demo_world ''artifacts/missing.png'' \<and>
   fst (compose_front exact demo_world ''upscaled/art.png'' ''artifacts/missing.png''
          ''assets/too_dark.png'' ''artifacts/x/x_front.png'') = True \<and>
   (\<exists>c. files (snd (compose_front exact demo_world ''upscaled/art.png'' ''artifacts/missing.png''
                      ''assets/too_dark.png'' ''artifacts/x/x_front.png''))
           = (files demo_world)(''artifacts/x/x_front.png'' \<mapsto> ImageFile c) \<and>
         pasted (pixels c) = [Lanczos (Raw 0) (1620, 1620), Lanczos (Raw 2) (900, 337)])"
  using missing_inputs [of demo_world "''upscaled/missing.png''" exact "''artifacts/x/x_back.png''"]
    missing_inputs [of demo_world "''upscaled/art.png''" exact "''artifacts/x/x_front.png''"
      "''artifacts/missing.png''" "''assets/too_dark.png''"]
  by (simp add: path_exists_def element_ok_def layer_pixels_def can_save_def dirname_def
      resize_maintaining_aspect_def int_truediv_def to_float_def py_int_def pil_resize_def
      img_size_def convert_def Let_def)

text \<open>
  C6 as stated fails: with the artwork present and the title and wordmark missing,
  \<open>compose_front\<close> returns False and writes nothing when the output path cannot be written,
  and also when the file at the artwork path is not an image.
\<close>

theorem present_artwork_counterexample:
  "path_exists demo_world ''upscaled/art.png'' \<and>
   \<not> path_exists demo_world ''artifacts/missing.png'' \<and>
   fst (compose_front exact demo_world ''upscaled/art.png'' ''artifacts/missing.png''
          ''artifacts/missing.png'' ''locked/front.png'') = False \<and>
   files (snd (compose_front exact demo_world ''upscaled/art.png'' ''artifacts/missing.png''
          ''artifacts/missing.png'' ''locked/front.png'')) = files demo_world \<and>
   path_exists demo_world ''upscaled/notes.txt'' \<and>
   fst (compose_front exact demo_world ''upscaled/notes.txt'' ''artifacts/missing.png''
          ''artifacts/missing.png'' ''artifacts/x/x_front.png'') = False \<and>
   files (snd (compose_front exact demo_world ''upscaled/notes.txt'' ''artifacts/missing.png''
          ''artifacts/missing.png'' ''artifacts/x/x_front.png'')) = files demo_world"
  by (simp add: path_exists_def compose_front_fst compose_front_files front_written_def
      front_canvas_def can_save_def put_def eval_simps)

lemma path_join_inject:
  assumes "path_join d (s @ CHR ''_'' # x) = path_join d (s @ CHR ''_'' # y)"
  shows "x = y"
proof (cases "s \<noteq> [] \<and> hd s = CHR ''/''")
  case True
  then have "hd (s @ CHR ''_'' # x) = CHR ''/''" "hd (s @ CHR ''_'' # y) = CHR ''/''" by simp_all
  with assms show ?thesis by (simp add: path_join_def)
next
  case False
  then have "hd (s @ CHR ''_'' # x) \<noteq> CHR ''/''" "hd (s @ CHR ''_'' # y) \<noteq> CHR ''/''"
    by (cases s; simp)+
  with assms show ?thesis by (simp add: path_join_def split: if_splits)
qed

lemma variant_path_inject:
  "variant_path pd slug n1 = variant_path pd slug n2 \<Longrightarrow> n1 = n2"
  using path_join_inject [of pd slug "n1 @ ''.png''" "n2 @ ''.png''"]
  by (simp add: variant_path_def)

lemma variant_path_neq [simp]:
  "n1 \<noteq> n2 \<Longrightarrow> variant_path pd slug n1 \<noteq> variant_path pd slug n2"
  using variant_path_inject by blast

lemma put_other [simp]: "p \<noteq> out \<Longrightarrow> put out wr fs p = fs p"
  by (simp add: put_def split: option.splits)

lemma put_None [simp]: "put out None fs = fs"
  by (simp add: put_def)

lemma record_variant_other [simp]: "k \<noteq> name \<Longrightarrow> record_variant name out wr res k = res k"
  by (simp add: record_variant_def split: option.splits)

lemma record_variant_None [simp]: "record_variant name out None res = res"
  by (simp add: record_variant_def)

lemma front_effect_closed:
  "asset_get a tk = None \<or> asset_get a wk = None \<Longrightarrow> front_effect F fs dn m a tk wk out = None"
  by (auto simp: front_effect_def split: option.splits)

text \<open>
  C10. In a run of \<open>create_all_variants_for_product\<close> that returns, the front composition
  for light garments is attempted only when the asset dictionary has true values for both
  \<open>title_dark\<close> and \<open>wordmark_dark\<close>, and the one for dark garments only when it has them
  for \<open>title_light\<close> and \<open>wordmark_light\<close>: otherwise the entry of the result is \<open>None\<close> and
  the file at its output path is untouched, whether the artwork exists or not. The number
  of FRONT compositions started is the number of open gates; exactly one BACK composition
  is started, whatever the dictionary holds.
\<close>

theorem front_gates:
  assumes "create_all_variants_for_product F w slug m a output_dir = Inr (res, w')"
  shows "(asset_get a ''title_dark'' = None \<or> asset_get a ''wordmark_dark'' = None \<longrightarrow>
            res ''front_light'' = Some None \<and>
            files w' (path_join (path_join output_dir slug) (slug @ ''_front_light.png'')) =
              files w (path_join (path_join output_dir slug) (slug @ ''_front_light.png''))) \<and>
         (asset_get a ''title_light'' = None \<or> asset_get a ''wordmark_light'' = None \<longrightarrow>
            res ''front_dark'' = Some None \<and>
            files w' (path_join (path_join output_dir slug) (slug @ ''_front_dark.png'')) =
              files w (path_join (path_join output_dir slug) (slug @ ''_front_dark.png''))) \<and>
         (\<exists>evs. banners w' = banners w @ evs \<and>
            count_list evs (Composing ''FRONT'' (3600, 4800)) =
              (if asset_get a ''title_dark'' \<noteq> None \<and> asset_get a ''wordmark_dark'' \<noteq> None
               then 1 else 0) +
              (if asset_get a ''title_light'' \<noteq> None \<and> asset_get a ''wordmark_light'' \<noteq> None
               then 1 else 0) \<and>
            count_list evs (Composing ''BACK'' (3600, 4800)) = 1)"
proof -
  let ?pd = "path_join output_dir slug"
  let ?plan = "variants_plan F (files w) (denied w) slug m a ?pd"
  have ok: "?pd \<noteq> []" "?pd \<notin> denied w"
    using assms create_all_Inl [of output_dir slug w F m a] by auto
  from create_all_Inr [OF ok, of F m a] assms
  have res: "res = plan_results ?plan"
    and fs: "files w' = plan_files ?plan (files w)"
    and b: "banners w' = banners w @
           (if front_gate a ''title_dark'' ''wordmark_dark'' then [Composing ''FRONT'' (3600, 4800)] else []) @
           (if front_gate a ''title_light'' ''wordmark_light'' then [Composing ''FRONT'' (3600, 4800)] else []) @
           [Composing ''BACK'' (3600, 4800)] @
           (if asset_get a ''logo_dark'' \<noteq> None then [Composing ''SLEEVE'' (900, 4200)] else []) @
           (if asset_get a ''logo_light'' \<noteq> None then [Composing ''SLEEVE'' (900, 4200)] else [])"
    by auto
  have p1: "path_join ?pd (slug @ ''_front_light.png'') = variant_path ?pd slug ''front_light''"
    and p2: "path_join ?pd (slug @ ''_front_dark.png'') = variant_path ?pd slug ''front_dark''"
    by (simp_all add: variant_path_def)
  have light: "res ''front_light'' = Some None \<and>
      files w' (variant_path ?pd slug ''front_light'') = files w (variant_path ?pd slug ''front_light'')"
    if "asset_get a ''title_dark'' = None \<or> asset_get a ''wordmark_dark'' = None"
    using front_effect_closed [OF that]
    by (simp add: res fs variants_plan_def plan_results_def plan_files_def Let_def initial_results_def)
  have dark: "res ''front_dark'' = Some None \<and>
      files w' (variant_path ?pd slug ''front_dark'') = files w (variant_path ?pd slug ''front_dark'')"
    if "asset_get a ''title_light'' = None \<or> asset_get a ''wordmark_light'' = None"
    using front_effect_closed [OF that]
    by (simp add: res fs variants_plan_def plan_results_def plan_files_def Let_def initial_results_def)
  from b have "\<exists>evs. banners w' = banners w @ evs \<and>
            count_list evs (Composing ''FRONT'' (3600, 4800)) =
              (if asset_get a ''title_dark'' \<noteq> None \<and> asset_get a ''wordmark_dark'' \<noteq> None
               then 1 else 0) +
              (if asset_get a ''title_light'' \<noteq> None \<and> asset_get a ''wordmark_light'' \<noteq> None
               then 1 else 0) \<and>
            count_list evs (Composing ''BACK'' (3600, 4800)) = 1"
    by (simp add: front_gate_def)
  with light dark show ?thesis unfolding p1 p2 by blast
qed

text \<open>
  C7. \<open>os.makedirs(product_dir)\<close> stands before the \<open>try\<close>: with an empty slug and an empty
  output directory the product directory is the empty path, the call raises, and
  \<open>create_all_variants_for_product\<close> returns no dictionary.
\<close>

theorem product_dir_failure:
  "create_all_variants_for_product F w [] m a [] = Inl OSError"
  by (simp add: create_all_Inl path_join_def)

lemma front_effect_cong:
  "same_inputs m a fs fs' \<Longrightarrow> front_effect F fs dn m a tk wk out = front_effect F fs' dn m a tk wk out"
  by (auto simp: same_inputs_def front_effect_def front_written_def split: option.splits)

lemma back_effect_cong:
  "same_inputs m a fs fs' \<Longrightarrow> back_effect F fs dn m out = back_effect F fs' dn m out"
  by (simp add: same_inputs_def back_effect_def single_written_def)

lemma sleeve_effect_cong:
  "same_inputs m a fs fs' \<Longrightarrow> sleeve_effect F fs dn a lk out = sleeve_effect F fs' dn a lk out"
  by (auto simp: same_inputs_def sleeve_effect_def single_written_def split: option.splits)

lemma same_inputs_put:
  "same_inputs m a fs fs' \<Longrightarrow> same_inputs m a (put out wr fs) (put out wr fs')"
  by (auto simp: same_inputs_def put_def split: option.splits)

lemma variants_plan_cong:
  assumes "same_inputs m a fs fs'"
  shows "variants_plan F fs dn slug m a pd = variants_plan F fs' dn slug m a pd"
proof -
  define o1 where "o1 = variant_path pd slug ''front_light''"
  define e1 where "e1 = front_effect F fs dn m a ''title_dark'' ''wordmark_dark'' o1"
  define o2 where "o2 = variant_path pd slug ''front_dark''"
  define e2 where "e2 = front_effect F (put o1 e1 fs) dn m a ''title_light'' ''wordmark_light'' o2"
  define o3 where "o3 = variant_path pd slug ''back''"
  define e3 where "e3 = back_effect F (put o2 e2 (put o1 e1 fs)) dn m o3"
  define o4 where "o4 = variant_path pd slug ''sleeve_dark''"
  define e4 where "e4 = sleeve_effect F (put o3 e3 (put o2 e2 (put o1 e1 fs))) dn a ''logo_dark'' o4"
  have 1: "front_effect F fs' dn m a ''title_dark'' ''wordmark_dark'' o1 = e1"
    unfolding e1_def using front_effect_cong [OF assms] by simp
  have s1: "same_inputs m a (put o1 e1 fs) (put o1 e1 fs')"
    using assms by (rule same_inputs_put)
  have 2: "front_effect F (put o1 e1 fs') dn m a ''title_light'' ''wordmark_light'' o2 = e2"
    unfolding e2_def using front_effect_cong [OF s1] by simp
  have s2: "same_inputs m a (put o2 e2 (put o1 e1 fs)) (put o2 e2 (put o1 e1 fs'))"
    using s1 by (rule same_inputs_put)
  have 3: "back_effect F (put o2 e2 (put o1 e1 fs')) dn m o3 = e3"
    unfolding e3_def using back_effect_cong [OF s2] by simp
  have s3: "same_inputs m a (put o3 e3 (put o2 e2 (put o1 e1 fs))) (put o3 e3 (put o2 e2 (put o1 e1 fs')))"
    using s2 by (rule same_inputs_put)
  have 4: "sleeve_effect F (put o3 e3 (put o2 e2 (put o1 e1 fs'))) dn a ''logo_dark'' o4 = e4"
    unfolding e4_def using sleeve_effect_cong [OF s3] by simp
  have s4: "same_inputs m a (put o4 e4 (put o3 e3 (put o2 e2 (put o1 e1 fs))))
              (put o4 e4 (put o3 e3 (put o2 e2 (put o1 e1 fs'))))"
    using s3 by (rule same_inputs_put)
  have 5: "sleeve_effect F (put o4 e4 (put o3 e3 (put o2 e2 (put o1 e1 fs')))) dn a ''logo_light''
             (variant_path pd slug ''sleeve_light'') =
           sleeve_effect F (put o4 e4 (put o3 e3 (put o2 e2 (put o1 e1 fs)))) dn a ''logo_light''
             (variant_path pd slug ''sleeve_light'')"
    using sleeve_effect_cong [OF s4] by simp
  show ?thesis
    unfolding variants_plan_def Let_def
    unfolding o1_def [symmetric] e1_def [symmetric] 1 o2_def [symmetric] e2_def [symmetric] 2
      o3_def [symmetric] e3_def [symmetric] 3 o4_def [symmetric] e4_def [symmetric] 4 5
    by (simp add: 1 2 3 4 5 e1_def [symmetric] e2_def [symmetric] e3_def [symmetric] e4_def [symmetric])
qed

lemma put_map_add: "put out wr fs = fs ++ put out wr Map.empty"
  by (simp add: put_def split: option.splits)

lemma plan_files_map_add: "plan_files plan fs = fs ++ plan_files plan Map.empty"
proof (induction plan arbitrary: fs)
  case Nil
  show ?case by (simp add: plan_files_def)
next
  case (Cons x xs)
  obtain name out wr where x: "x = (name, out, wr)" by (cases x)
  have "plan_files (x # xs) fs = plan_files xs (put out wr fs)"
    by (simp add: plan_files_def x)
  also have "\<dots> = put out wr fs ++ plan_files xs Map.empty" by (rule Cons.IH)
  also have "\<dots> = fs ++ (put out wr Map.empty ++ plan_files xs Map.empty)"
    by (subst put_map_add) simp
  also have "put out wr Map.empty ++ plan_files xs Map.empty = plan_files xs (put out wr Map.empty)"
    by (rule Cons.IH [symmetric])
  also have "\<dots> = plan_files (x # xs) Map.empty" by (simp add: plan_files_def x)
  finally show ?case .
qed

lemma plan_files_idem: "plan_files plan (plan_files plan fs) = plan_files plan fs"
proof -
  have "plan_files plan (plan_files plan fs) = plan_files plan fs ++ plan_files plan Map.empty"
    by (rule plan_files_map_add)
  also have "\<dots> = (fs ++ plan_files plan Map.empty) ++ plan_files plan Map.empty"
    using plan_files_map_add [of plan fs] by simp
  also have "\<dots> = fs ++ plan_files plan Map.empty"
    by (rule ext) (simp add: map_add_def split: option.splits)
  also have "\<dots> = plan_files plan fs" by (rule plan_files_map_add [symmetric])
  finally show ?thesis .
qed

lemma plan_results_writes:
  assumes "fold (\<lambda>(name, out, wr). record_variant name out wr) plan r0 k = Some (Some out)"
  shows "r0 k = Some (Some out) \<or> out \<in> dom (plan_files plan Map.empty)"
  using assms
proof (induction plan arbitrary: r0)
  case Nil
  then show ?case by simp
next
  case (Cons x xs)
  obtain name o' wr where x: "x = (name, o', wr)" by (cases x)
  from Cons.prems have "fold (\<lambda>(name, out, wr). record_variant name out wr) xs
      (record_variant name o' wr r0) k = Some (Some out)" by (simp add: x)
  from Cons.IH [OF this] have "record_variant name o' wr r0 k = Some (Some out) \<or>
      out \<in> dom (plan_files xs Map.empty)" .
  moreover have "plan_files (x # xs) Map.empty = put o' wr Map.empty ++ plan_files xs Map.empty"
    using plan_files_map_add [of xs "put o' wr Map.empty"] by (simp add: plan_files_def x)
  ultimately show ?case
    by (auto simp: record_variant_def put_def split: option.splits if_splits)
qed

text \<open>
  C8. Let a run of \<open>create_all_variants_for_product\<close> from the state \<open>a\<close> return the
  dictionary \<open>r\<close> and leave the state \<open>a'\<close>. A run with the same arguments from any state \<open>b\<close>
  that holds the same artwork and asset files (and where the system refuses the same paths)
  returns the same dictionary, and every output path it reports holds the same image as
  after the first run. When \<open>b\<close> is the state the first run left, the second run rewrites
  the files with what they already hold: the files are unchanged.
\<close>

theorem rerun_identical:
  assumes run: "create_all_variants_for_product F a slug m art output_dir = Inr (r, a')"
    and dn: "denied b = denied a"
    and main: "files b m = files a m"
    and assets: "\<forall>k p. asset_get art k = Some p \<longrightarrow> files b p = files a p"
  shows "\<exists>b'. create_all_variants_for_product F b slug m art output_dir = Inr (r, b') \<and>
           (\<forall>k out. r k = Some (Some out) \<longrightarrow> files b' out = files a' out) \<and>
           (files b = files a' \<longrightarrow> files b' = files b)"
proof -
  let ?pd = "path_join output_dir slug"
  let ?P = "variants_plan F (files a) (denied a) slug m art ?pd"
  have ok: "?pd \<noteq> []" "?pd \<notin> denied a"
    using run create_all_Inl [of output_dir slug a F m art] by auto
  from create_all_Inr [OF ok, of F m art] run
  have r: "r = plan_results ?P" and fa: "files a' = plan_files ?P (files a)" by auto
  have "same_inputs m art (files a) (files b)"
    using main assets by (simp add: same_inputs_def)
  then have P: "variants_plan F (files b) (denied b) slug m art ?pd = ?P"
    using variants_plan_cong [of m art "files a" "files b" F "denied a" slug ?pd] dn by simp
  from ok dn have okb: "?pd \<noteq> []" "?pd \<notin> denied b" by simp_all
  from create_all_Inr [OF okb, of F m art] P r obtain b' where
    runb: "create_all_variants_for_product F b slug m art output_dir = Inr (r, b')"
    and fb: "files b' = plan_files ?P (files b)" by auto
  have same: "files b' out = files a' out" if "r k = Some (Some out)" for k out
  proof -
    from that have "fold (\<lambda>(name, out, wr). record_variant name out wr) ?P initial_results k
        = Some (Some out)" by (simp add: r plan_results_def)
    from plan_results_writes [OF this]
    have "out \<in> dom (plan_files ?P Map.empty)"
      by (auto simp: initial_results_def split: if_splits)
    then show ?thesis
      using plan_files_map_add [of ?P "files a"] plan_files_map_add [of ?P "files b"]
      by (auto simp: fa fb map_add_def split: option.splits)
  qed
  have idem: "files b' = files b" if "files b = files a'"
    using that by (simp add: fb fa plan_files_idem)
  from runb same idem show ?thesis by blast
qed

theorem composition_has_template_size_witness:
  "fst (compose_front exact demo_world ''upscaled/art.png'' ''artifacts/t_dark.png''
          ''assets/too_dark.png'' ''artifacts/x/x_front.png'') = True \<and>
   (\<exists>c T. files (snd (compose_front exact demo_world ''upscaled/art.png'' ''artifacts/t_dark.png''
                        ''assets/too_dark.png'' ''artifacts/x/x_front.png''))
              ''artifacts/x/x_front.png'' = Some (ImageFile c) \<and>
          CANVAS_TEMPLATES ''main'' = Some T \<and> mode c = ''RGBA'' \<and>
          img_size c = (tpl_width T, tpl_height T) \<and> img_size c = (3600, 4800)) \<and>
   fst (compose_back exact demo_world ''upscaled/art.png'' ''artifacts/x/x_back.png'') = True \<and>
   (\<exists>c T. files (snd (compose_back exact demo_world ''upscaled/art.png'' ''artifacts/x/x_back.png''))
              ''artifacts/x/x_back.png'' = Some (ImageFile c) \<and>
          CANVAS_TEMPLATES ''main'' = Some T \<and> mode c = ''RGBA'' \<and>
          img_size c = (tpl_width T, tpl_height T) \<and> img_size c = (3600, 4800)) \<and>
   fst (compose_sleeve exact demo_world ''assets/logo_dark.png'' ''artifacts/x/x_sleeve.png'') = True \<and>
   (\<exists>c T. files (snd (compose_sleeve exact demo_world ''assets/logo_dark.png''
                        ''artifacts/x/x_sleeve.png''))
              ''artifacts/x/x_sleeve.png'' = Some (ImageFile c) \<and>
          CANVAS_TEMPLATES ''sleeve'' = Some T \<and> mode c = ''RGBA'' \<and>
          img_size c = (tpl_width T, tpl_height T) \<and> img_size c = (900, 4200))"
proof -
  let ?f = "compose_front exact demo_world ''upscaled/art.png'' ''artifacts/t_dark.png''
          ''assets/too_dark.png'' ''artifacts/x/x_front.png''"
  let ?b = "compose_back exact demo_world ''upscaled/art.png'' ''artifacts/x/x_back.png''"
  let ?s = "compose_sleeve exact demo_world ''assets/logo_dark.png'' ''artifacts/x/x_sleeve.png''"
  have f: "fst ?f = True"
    by (simp add: compose_front_fst front_written_def front_canvas_def can_save_def dirname_def
        eval_simps)
  have b: "fst ?b = True"
    by (simp add: compose_back_fst single_written_def single_canvas_def can_save_def dirname_def
        eval_simps)
  have s: "fst ?s = True"
    by (simp add: compose_sleeve_fst single_written_def single_canvas_def can_save_def dirname_def
        demo_world_def eval_simps)
  from f have f': "?f = (True, snd ?f)" by (simp add: prod_eq_iff)
  from b have b': "?b = (True, snd ?b)" by (simp add: prod_eq_iff)
  from s have s': "?s = (True, snd ?s)" by (simp add: prod_eq_iff)
  from composition_has_template_size [of exact demo_world "''upscaled/art.png''"
      "''artifacts/t_dark.png''" "''assets/too_dark.png''" "''artifacts/x/x_front.png''" "snd ?f"] f'
  have 1: "\<exists>c T. files (snd ?f) ''artifacts/x/x_front.png'' = Some (ImageFile c) \<and>
          CANVAS_TEMPLATES ''main'' = Some T \<and> mode c = ''RGBA'' \<and>
          img_size c = (tpl_width T, tpl_height T) \<and> img_size c = (3600, 4800)" by blast
  from composition_has_template_size [of exact demo_world "''upscaled/art.png''" _ _
      "''artifacts/x/x_back.png''" "snd ?b"] b'
  have 2: "\<exists>c T. files (snd ?b) ''artifacts/x/x_back.png'' = Some (ImageFile c) \<and>
          CANVAS_TEMPLATES ''main'' = Some T \<and> mode c = ''RGBA'' \<and>
          img_size c = (tpl_width T, tpl_height T) \<and> img_size c = (3600, 4800)" by blast
  from composition_has_template_size [of exact demo_world _ _ _
      "''artifacts/x/x_sleeve.png''" "snd ?s" "''assets/logo_dark.png''"] s'
  have 3: "\<exists>c T. files (snd ?s) ''artifacts/x/x_sleeve.png'' = Some (ImageFile c) \<and>
          CANVAS_TEMPLATES ''sleeve'' = Some T \<and> mode c = ''RGBA'' \<and>
          img_size c = (tpl_width T, tpl_height T) \<and> img_size c = (900, 4200)" by blast
  from f b s 1 2 3 show ?thesis by blast
qed

lemma demo_product_dir:
  "path_join ''artifacts'' ''x'' = ''artifacts/x''"
  "''artifacts/x'' \<notin> denied demo_world"
  by (simp_all add: path_join_def)

lemma demo_asset_get [simp]:
  "asset_get demo_assets ''title_dark'' = Some ''artifacts/t_dark.png''"
  "asset_get demo_assets ''wordmark_dark'' = Some ''assets/too_dark.png''"
  "asset_get demo_assets ''title_light'' = Some ''artifacts/missing.png''"
  "asset_get demo_assets ''wordmark_light'' = None"
  "asset_get demo_assets ''logo_dark'' = Some ''assets/logo_dark.png''"
  "asset_get demo_assets ''logo_light'' = None"
  by (simp_all add: asset_get_def demo_assets_def)

theorem front_gates_witness:
  "\<exists>res w'. create_all_variants_for_product exact demo_world ''x'' ''upscaled/art.png''
               demo_assets ''artifacts'' = Inr (res, w') \<and>
     asset_get demo_assets ''wordmark_light'' = None \<and>
     res ''front_dark'' = Some None \<and>
     files w' ''artifacts/x/x_front_dark.png'' = files demo_world ''artifacts/x/x_front_dark.png'' \<and>
     asset_get demo_assets ''title_dark'' \<noteq> None \<and>
     asset_get demo_assets ''wordmark_dark'' \<noteq> None \<and>
     (\<exists>evs. banners w' = banners demo_world @ evs \<and>
        count_list evs (Composing ''FRONT'' (3600, 4800)) = 1 \<and>
        count_list evs (Composing ''BACK'' (3600, 4800)) = 1)"
proof -
  obtain w' where run: "create_all_variants_for_product exact demo_world ''x'' ''upscaled/art.png''
      demo_assets ''artifacts'' =
      Inr (plan_results (variants_plan exact (files demo_world) (denied demo_world) ''x''
             ''upscaled/art.png'' demo_assets (path_join ''artifacts'' ''x'')), w')"
    using create_all_Inr [of "''artifacts''" "''x''" demo_world exact "''upscaled/art.png''" demo_assets]
    by (auto simp: demo_product_dir)
  from front_gates [OF run] run show ?thesis
    by (simp add: demo_product_dir path_join_def)
qed

lemma demo_asset_paths:
  assumes "asset_get demo_assets k = Some p"
  shows "p \<in> {''artifacts/t_dark.png'', ''assets/too_dark.png'', ''artifacts/missing.png'',
              ''assets/logo_dark.png''}"
  using assms by (auto simp: asset_get_def demo_assets_def split: if_splits option.splits)

lemma demo_plan_frame:
  assumes "p \<in> {''upscaled/art.png'', ''artifacts/t_dark.png'', ''assets/too_dark.png'',
               ''artifacts/missing.png'', ''assets/logo_dark.png''}"
  shows "plan_files (variants_plan F fs dn ''x'' m a ''artifacts/x'') fs p = fs p"
  using assms
  by (auto simp: plan_files_def variants_plan_def Let_def variant_path_def path_join_def)

theorem rerun_identical_witness:
  "\<exists>r a' b'.
     create_all_variants_for_product exact demo_world ''x'' ''upscaled/art.png'' demo_assets
       ''artifacts'' = Inr (r, a') \<and>
     denied a' = denied demo_world \<and>
     files a' ''upscaled/art.png'' = files demo_world ''upscaled/art.png'' \<and>
     create_all_variants_for_product exact a' ''x'' ''upscaled/art.png'' demo_assets
       ''artifacts'' = Inr (r, b') \<and>
     files b' = files a'"
proof -
  let ?P = "variants_plan exact (files demo_world) (denied demo_world) ''x''
             ''upscaled/art.png'' demo_assets ''artifacts/x''"
  obtain a' where run: "create_all_variants_for_product exact demo_world ''x'' ''upscaled/art.png''
      demo_assets ''artifacts'' = Inr (plan_results ?P, a')"
    and fa: "files a' = plan_files ?P (files demo_world)"
    and dn: "denied a' = denied demo_world"
    using create_all_Inr [of "''artifacts''" "''x''" demo_world exact "''upscaled/art.png''" demo_assets]
    by (auto simp: demo_product_dir)
  have main: "files a' ''upscaled/art.png'' = files demo_world ''upscaled/art.png''"
    unfolding fa by (rule demo_plan_frame) simp
  have assets: "\<forall>k p. asset_get demo_assets k = Some p \<longrightarrow> files a' p = files demo_world p"
  proof (intro allI impI)
    fix k p assume "asset_get demo_assets k = Some p"
    from demo_asset_paths [OF this] show "files a' p = files demo_world p"
      unfolding fa by (intro demo_plan_frame) auto
  qed
  from rerun_identical [OF run dn main assets] obtain b' where
    "create_all_variants_for_product exact a' ''x'' ''upscaled/art.png'' demo_assets ''artifacts''
       = Inr (plan_results ?P, b')" "files b' = files a'" by blast
  with run dn main show ?thesis by blast
qed


section \<open>Resizing\<close>

subsection \<open>Rounding of the two divisions\<close>

lemma ieee_fix: "ieee_like F \<Longrightarrow> \<bar>n\<bar> \<le> 2 ^ 53 \<Longrightarrow> fl F (of_int n) = of_int n"
  by (simp add: ieee_like_def)

lemma ieee_mono: "ieee_like F \<Longrightarrow> x \<le> y \<Longrightarrow> fl F x \<le> fl F y"
  by (simp add: ieee_like_def)

lemma ieee_err:
  "ieee_like F \<Longrightarrow> 1 / 2 ^ 64 \<le> \<bar>x\<bar> \<Longrightarrow> \<bar>x\<bar> \<le> 2 ^ 64 \<Longrightarrow> \<bar>fl F x - x\<bar> \<le> \<bar>x\<bar> / 2 ^ 53"
  by (simp add: ieee_like_def)

lemma ieee_zero: "ieee_like F \<Longrightarrow> fl F 0 = 0"
  using ieee_fix [of F 0] by simp

lemma ieee_le_int:
  assumes "ieee_like F" "x \<le> of_int n" "\<bar>n\<bar> \<le> 2 ^ 53"
  shows "fl F x \<le> of_int n"
  using ieee_mono [OF assms(1,2)] ieee_fix [OF assms(1,3)] by simp

lemma ieee_ge_int:
  assumes "ieee_like F" "of_int n \<le> x" "\<bar>n\<bar> \<le> 2 ^ 53"
  shows "of_int n \<le> fl F x"
  using ieee_mono [OF assms(1,2)] ieee_fix [OF assms(1,3)] by simp

lemma percent_trunc:
  assumes F: "ieee_like F" and a0: "0 \<le> a" and a1: "a \<le> 100 * 2 ^ 24"
  shows "py_int (fl F (of_int a / 100)) = a div 100"
proof -
  define k where "k = a div 100"
  define q :: real where "q = of_int a / 100"
  have k0: "0 \<le> k" and k1: "k \<le> 2 ^ 24" using a0 a1 by (auto simp: k_def)
  have kq: "of_int k \<le> q" unfolding k_def q_def
    by (metis floor_divide_of_int_eq of_int_floor_le of_int_numeral)
  have lo: "of_int k \<le> fl F q"
    using ieee_ge_int [OF F kq] k0 k1 by simp
  have hi: "fl F q < of_int k + 1"
  proof (cases "a mod 100 = 0")
    case True
    have "a = k * 100" using True unfolding k_def by presburger
    then have "q = of_int k" unfolding q_def by simp
    then have "fl F q = of_int k" using ieee_fix [OF F, of k] k0 k1 by simp
    then show ?thesis by simp
  next
    case False
    have a: "a = k * 100 + a mod 100" unfolding k_def by simp
    have m: "1 \<le> a mod 100" "a mod 100 \<le> 99"
      using False pos_mod_sign [of 100 a] pos_mod_bound [of 100 a] by linarith+
    have qk: "q = of_int k + of_int (a mod 100) / 100"
      unfolding q_def by (subst a) (simp add: field_simps)
    have q1: "q \<le> of_int k + 99 / 100" using m unfolding qk by simp
    have q0: "1 / 100 \<le> q" using m k0 unfolding qk by simp
    have q2: "q \<le> 2 ^ 24 + 1" using q1 k1 by simp
    define d where "d = q / 2 ^ 53"
    have "\<bar>fl F q - q\<bar> \<le> \<bar>q\<bar> / 2 ^ 53"
      using q0 q2 by (intro ieee_err [OF F]) simp_all
    moreover have "\<bar>q\<bar> = q" using q0 by simp
    ultimately have err: "\<bar>fl F q - q\<bar> \<le> d" unfolding d_def by simp
    have "d \<le> (2 ^ 24 + 1) / 2 ^ 53"
      unfolding d_def using q2 by (intro divide_right_mono) simp_all
    moreover have "((2::real) ^ 24 + 1) / 2 ^ 53 < 1 / 100" by simp
    ultimately have "d < 1 / 100" by linarith
    with err q1 show ?thesis by linarith
  qed
  have "\<lfloor>fl F q\<rfloor> = k" using lo hi by (simp add: floor_unique)
  moreover have "0 \<le> fl F q" using lo k0 by simp
  ultimately show ?thesis by (simp add: py_int_def q_def k_def)
qed

lemma aspect_trunc:
  assumes F: "ieee_like F"
    and n: "0 \<le> n" "n \<le> 2 ^ 24"
    and a: "0 < a" "a \<le> 2 ^ 24"
    and b: "0 < b" "b \<le> 2 ^ 24"
  shows "0 \<le> py_int (fl F (to_float F n * fl F (of_int a / of_int b))) \<and>
         \<bar>of_int (py_int (fl F (to_float F n * fl F (of_int a / of_int b)))) -
            of_int n * of_int a / of_int b\<bar> \<le> (1 :: real)"
proof -
  define r :: real where "r = of_int a / of_int b"
  define t :: real where "t = of_int n * r"
  define v :: real where "v = of_int n * fl F r"
  define q where "q = (n * a) div b"
  define m where "m = (n * a) mod b"
  define e :: real where "e = 1 / (2 * of_int b)"
  define f :: real where "f = of_int m / of_int b"
  have bpos: "(0::real) < of_int b" using b by simp
  have epos: "0 < e" unfolding e_def using bpos by simp
  have tf: "to_float F n = of_int n"
    unfolding to_float_def using n by (intro ieee_fix [OF F]) simp
  \<comment> \<open>the quotient and the remainder of the exact height\<close>
  have m0: "0 \<le> m" and m1: "m \<le> b - 1" unfolding m_def using b by simp_all
  have N: "n * a = q * b + m" unfolding q_def m_def by simp
  have q0: "0 \<le> q" unfolding q_def using n a b by (simp add: pos_imp_zdiv_nonneg_iff)
  have "n * a \<le> 2 ^ 24 * 2 ^ 24" using n a by (intro mult_mono) simp_all
  then have N1: "n * a \<le> 2 ^ 48" by simp
  have "q * 1 \<le> q * b" using q0 b by (intro mult_left_mono) simp_all
  then have "q \<le> n * a" using N m0 by simp
  with N1 have q1: "q \<le> 2 ^ 48" by simp
  have "of_int (n * a) / of_int b = (of_int q :: real) + of_int m / of_int b"
    unfolding N using bpos by (simp add: field_simps)
  then have t: "t = of_int q + f" unfolding t_def r_def f_def by simp
  have "real_of_int m \<le> real_of_int (b - 1)" using m1 by (simp only: of_int_le_iff)
  then have "of_int m \<le> (of_int b :: real) - 1" by simp
  then have "f \<le> (of_int b - 1) / of_int b" unfolding f_def using bpos
    by (intro divide_right_mono) simp_all
  also have "\<dots> = 1 - 2 * e" unfolding e_def using bpos by (simp add: field_simps)
  finally have f1: "f \<le> 1 - 2 * e" .
  have f0: "0 \<le> f" unfolding f_def using m0 bpos by simp
  have fz: "f = 0" if "m = 0" using that unfolding f_def by simp
  have fp: "2 * e \<le> f" if "m \<noteq> 0"
  proof -
    from that m0 have "1 \<le> m" by simp
    then have "(1::real) \<le> of_int m" by simp
    then have "1 / of_int b \<le> of_int m / (of_int b :: real)" using bpos
      by (intro divide_right_mono) simp_all
    then show ?thesis unfolding f_def e_def by simp
  qed
  \<comment> \<open>the rounding error of the aspect ratio\<close>
  have r0: "1 / 2 ^ 64 \<le> r"
  proof -
    have "(1::real) / 2 ^ 24 \<le> 1 / of_int b" using b bpos
      by (intro divide_left_mono) simp_all
    also have "\<dots> \<le> of_int a / of_int b" using a bpos by (intro divide_right_mono) simp_all
    finally have "(1::real) / 2 ^ 24 \<le> r" unfolding r_def .
    moreover have "(1::real) / 2 ^ 64 \<le> 1 / 2 ^ 24" by simp
    ultimately show ?thesis by linarith
  qed
  have r1: "r \<le> 2 ^ 64"
  proof -
    have "of_int a / of_int b \<le> (of_int a :: real) / 1" using a b
      by (intro divide_left_mono) simp_all
    also have "\<dots> \<le> 2 ^ 24" using a by simp
    finally have "r \<le> 2 ^ 24" unfolding r_def .
    moreover have "(2::real) ^ 24 \<le> 2 ^ 64" by simp
    ultimately show ?thesis by linarith
  qed
  have "(0::real) < 1 / 2 ^ 64" by simp
  with r0 have rpos: "0 < r" by linarith
  have "\<bar>fl F r - r\<bar> \<le> \<bar>r\<bar> / 2 ^ 53"
    using r0 r1 rpos by (intro ieee_err [OF F]) simp_all
  then have err: "\<bar>fl F r - r\<bar> \<le> r / 2 ^ 53" using rpos by simp
  have "\<bar>v - t\<bar> = of_int n * \<bar>fl F r - r\<bar>"
    unfolding v_def t_def using n by (simp add: abs_mult right_diff_distrib [symmetric])
  also have "\<dots> \<le> of_int n * (r / 2 ^ 53)" using err n by (intro mult_left_mono) simp_all
  also have "\<dots> = (of_int (n * a) / 2 ^ 53) / of_int b" unfolding r_def by simp
  also have "\<dots> \<le> (1 / 2) / of_int b"
  proof (intro divide_right_mono)
    have "real_of_int (n * a) \<le> real_of_int (2 ^ 48)" using N1 by (simp only: of_int_le_iff)
    then have "(of_int (n * a) :: real) \<le> 2 ^ 48" by simp
    then have "(of_int (n * a) :: real) / 2 ^ 53 \<le> 2 ^ 48 / 2 ^ 53" by (intro divide_right_mono) simp_all
    also have "\<dots> \<le> (1::real) / 2" by simp
    finally show "(of_int (n * a) :: real) / 2 ^ 53 \<le> 1 / 2" .
  qed (use bpos in simp)
  also have "\<dots> = e" unfolding e_def by simp
  finally have vt: "\<bar>v - t\<bar> \<le> e" .
  \<comment> \<open>the product lies between integers that rounding keeps\<close>
  have v0: "0 \<le> v" unfolding v_def using n ieee_mono [OF F, of 0 r] rpos ieee_zero [OF F] by simp
  have fv0: "0 \<le> fl F v" using ieee_mono [OF F v0] ieee_zero [OF F] by simp
  have "v \<le> of_int (q + 1)" using vt t f1 epos by (simp; linarith)
  then have hi: "fl F v \<le> of_int (q + 1)" using q0 q1 by (intro ieee_le_int [OF F]) simp_all
  have lo: "of_int q - (if m = 0 then 1 else 0) \<le> fl F v"
  proof (cases "m = 0")
    case True
    have "of_int (q - 1) \<le> v" using vt t fz [OF True] f1 epos by (simp; linarith)
    then have "of_int (q - 1) \<le> fl F v" using q0 q1 by (intro ieee_ge_int [OF F]) simp_all
    then show ?thesis using True by simp
  next
    case False
    have "of_int q \<le> v" using vt t fp [OF False] epos by linarith
    then have "of_int q \<le> fl F v" using q0 q1 by (intro ieee_ge_int [OF F]) simp_all
    then show ?thesis using False by simp
  qed
  define h where "h = \<lfloor>fl F v\<rfloor>"
  have h_hi: "h \<le> q + 1" unfolding h_def using hi by (simp add: floor_le_iff; linarith)
  have h_lo: "q - (if m = 0 then 1 else 0) \<le> h" unfolding h_def using lo
    by (simp add: le_floor_iff split: if_splits)
  have h0: "0 \<le> h" unfolding h_def using fv0 by simp
  have py: "py_int (fl F (to_float F n * fl F (of_int a / of_int b))) = h"
    unfolding tf h_def v_def r_def using fv0 by (simp add: py_int_def v_def r_def)
  have "\<bar>of_int h - t\<bar> \<le> 1"
  proof (cases "m = 0")
    case True
    then have "q - 1 \<le> h" using h_lo by simp
    then have "real_of_int (q - 1) \<le> real_of_int h" by (simp only: of_int_le_iff)
    then have "of_int q - 1 \<le> (of_int h :: real)" by simp
    moreover have "real_of_int h \<le> real_of_int (q + 1)" using h_hi by (simp only: of_int_le_iff)
    then have "(of_int h :: real) \<le> of_int q + 1" by simp
    ultimately show ?thesis using t fz [OF True] by (simp; linarith)
  next
    case False
    then have "q \<le> h" using h_lo by simp
    then have "of_int q \<le> (of_int h :: real)" by simp
    moreover have "real_of_int h \<le> real_of_int (q + 1)" using h_hi by (simp only: of_int_le_iff)
    then have "(of_int h :: real) \<le> of_int q + 1" by simp
    ultimately show ?thesis using t fp [OF False] f1 epos by (simp; linarith)
  qed
  then show ?thesis unfolding py using h0 by (simp add: t_def r_def)
qed


subsection \<open>Target dimensions\<close>

lemma ieee_like_exact: "ieee_like exact"
  by (simp add: ieee_like_def exact_def)

lemma pil_resize_cases:
  assumes "0 < width img" "0 < height img"
  shows "if 1 \<le> tw \<and> 1 \<le> th
         then \<exists>r. pil_resize img (tw, th) = Inr r \<and> img_size r = (tw, th)
         else pil_resize img (tw, th) = Inl ValueError"
  using assms by (auto simp: pil_resize_def img_size_def)

text \<open>
  C3, as amended. For an image whose sides lie between 1 and \<open>2 ^ 24\<close> and floating-point
  arithmetic that rounds like IEEE doubles: a rule with \<open>width_percent = P\<close> gives the target
  width \<open>canvas_w * P div 100\<close>, the percentage truncated by \<open>int()\<close>, and a target height
  within one pixel of width times source height over source width; the result is the image
  resized to these dimensions when both are at least 1, and \<open>ValueError\<close> from PIL otherwise.
  A rule with only \<open>height_percent\<close> is treated symmetrically, and a rule with neither key
  returns the image unchanged.
\<close>

theorem resize_dimensions:
  assumes F: "ieee_like F"
    and w: "0 < width img" "width img \<le> 2 ^ 24"
    and h: "0 < height img" "height img \<le> 2 ^ 24"
  shows
    "(target_config ''width_percent'' = Some P \<and> 0 \<le> canvas_w * P \<and>
      canvas_w * P \<le> 100 * 2 ^ 24 \<longrightarrow>
        (\<exists>th. \<bar>real_of_int th -
                real_of_int (canvas_w * P div 100) * real_of_int (height img) /
                  real_of_int (width img)\<bar> \<le> 1 \<and>
              (if 1 \<le> canvas_w * P div 100 \<and> 1 \<le> th
               then \<exists>r. resize_maintaining_aspect F img target_config (canvas_w, canvas_h) = Inr r \<and>
                        width r = canvas_w * P div 100 \<and> height r = th
               else resize_maintaining_aspect F img target_config (canvas_w, canvas_h) =
                      Inl ValueError))) \<and>
     (target_config ''width_percent'' = None \<and> target_config ''height_percent'' = Some P \<and>
      0 \<le> canvas_h * P \<and> canvas_h * P \<le> 100 * 2 ^ 24 \<longrightarrow>
        (\<exists>tw. \<bar>real_of_int tw -
                real_of_int (canvas_h * P div 100) * real_of_int (width img) /
                  real_of_int (height img)\<bar> \<le> 1 \<and>
              (if 1 \<le> tw \<and> 1 \<le> canvas_h * P div 100
               then \<exists>r. resize_maintaining_aspect F img target_config (canvas_w, canvas_h) = Inr r \<and>
                        width r = tw \<and> height r = canvas_h * P div 100
               else resize_maintaining_aspect F img target_config (canvas_w, canvas_h) =
                      Inl ValueError))) \<and>
     (target_config ''width_percent'' = None \<and> target_config ''height_percent'' = None \<longrightarrow>
        resize_maintaining_aspect F img target_config (canvas_w, canvas_h) = Inr img)"
proof (intro conjI impI)
  assume a: "target_config ''width_percent'' = Some P \<and> 0 \<le> canvas_w * P \<and>
      canvas_w * P \<le> 100 * 2 ^ 24"
  define tw where "tw = canvas_w * P div 100"
  define th where "th = py_int (fl F (to_float F tw * fl F (of_int (height img) / of_int (width img))))"
  have "py_int (fl F (of_int (canvas_w * P) / 100)) = tw"
    unfolding tw_def using a by (intro percent_trunc [OF F]) simp_all
  then have tw: "py_int (fl F (real_of_int canvas_w * real_of_int P / 100)) = tw" by simp
  have tw0: "0 \<le> tw" "tw \<le> 2 ^ 24" unfolding tw_def using a by auto
  from aspect_trunc [OF F tw0 h w]
  have th: "\<bar>real_of_int th - real_of_int tw * real_of_int (height img) / real_of_int (width img)\<bar> \<le> 1"
    unfolding th_def by simp
  have eq: "resize_maintaining_aspect F img target_config (canvas_w, canvas_h) =
      pil_resize img (tw, th)"
    using a w by (simp add: resize_maintaining_aspect_def int_truediv_def Let_def tw th_def)
  show "\<exists>th. \<bar>real_of_int th -
                real_of_int (canvas_w * P div 100) * real_of_int (height img) /
                  real_of_int (width img)\<bar> \<le> 1 \<and>
              (if 1 \<le> canvas_w * P div 100 \<and> 1 \<le> th
               then \<exists>r. resize_maintaining_aspect F img target_config (canvas_w, canvas_h) = Inr r \<and>
                        width r = canvas_w * P div 100 \<and> height r = th
               else resize_maintaining_aspect F img target_config (canvas_w, canvas_h) =
                      Inl ValueError)"
    using th pil_resize_cases [OF w(1) h(1), of tw th]
    unfolding eq tw_def [symmetric]
    by (intro exI [of _ th]) (auto simp: img_size_def)
next
  assume a: "target_config ''width_percent'' = None \<and> target_config ''height_percent'' = Some P \<and>
      0 \<le> canvas_h * P \<and> canvas_h * P \<le> 100 * 2 ^ 24"
  define th where "th = canvas_h * P div 100"
  define tw where "tw = py_int (fl F (to_float F th * fl F (of_int (width img) / of_int (height img))))"
  have "py_int (fl F (of_int (canvas_h * P) / 100)) = th"
    unfolding th_def using a by (intro percent_trunc [OF F]) simp_all
  then have th: "py_int (fl F (real_of_int canvas_h * real_of_int P / 100)) = th" by simp
  have th0: "0 \<le> th" "th \<le> 2 ^ 24" unfolding th_def using a by auto
  from aspect_trunc [OF F th0 w h]
  have tw: "\<bar>real_of_int tw - real_of_int th * real_of_int (width img) / real_of_int (height img)\<bar> \<le> 1"
    unfolding tw_def by simp
  have eq: "resize_maintaining_aspect F img target_config (canvas_w, canvas_h) =
      pil_resize img (tw, th)"
    using a h by (simp add: resize_maintaining_aspect_def int_truediv_def Let_def th tw_def)
  show "\<exists>tw. \<bar>real_of_int tw -
                real_of_int (canvas_h * P div 100) * real_of_int (width img) /
                  real_of_int (height img)\<bar> \<le> 1 \<and>
              (if 1 \<le> tw \<and> 1 \<le> canvas_h * P div 100
               then \<exists>r. resize_maintaining_aspect F img target_config (canvas_w, canvas_h) = Inr r \<and>
                        width r = tw \<and> height r = canvas_h * P div 100
               else resize_maintaining_aspect F img target_config (canvas_w, canvas_h) =
                      Inl ValueError)"
    using tw pil_resize_cases [OF w(1) h(1), of tw th]
    unfolding eq th_def [symmetric]
    by (intro exI [of _ tw]) (auto simp: img_size_def)
next
  assume "target_config ''width_percent'' = None \<and> target_config ''height_percent'' = None"
  then show "resize_maintaining_aspect F img target_config (canvas_w, canvas_h) = Inr img"
    by (simp add: resize_maintaining_aspect_def)
qed

text \<open>
  The artwork rule of the front (45 percent of 3600), the logo rule of the sleeve (25 percent
  of 4200) and a rule without a size, on a square image.
\<close>

theorem resize_dimensions_witness:
  "ieee_like exact \<and>
   (\<exists>th. \<bar>real_of_int th - 1620\<bar> \<le> 1 \<and>
      (\<exists>r. resize_maintaining_aspect exact
             \<lparr>width = 2000, height = 2000, mode = ''RGBA'', pixels = Raw 0\<rparr>
             [''width_percent'' \<mapsto> 45, ''top_percent'' \<mapsto> 20] (3600, 4800) = Inr r \<and>
           width r = 1620 \<and> height r = th)) \<and>
   (\<exists>tw. \<bar>real_of_int tw - 1050\<bar> \<le> 1 \<and>
      (\<exists>r. resize_maintaining_aspect exact
             \<lparr>width = 2000, height = 2000, mode = ''RGBA'', pixels = Raw 0\<rparr>
             [''height_percent'' \<mapsto> 25, ''top_percent'' \<mapsto> 50] (900, 4200) = Inr r \<and>
           width r = tw \<and> height r = 1050)) \<and>
   resize_maintaining_aspect exact
     \<lparr>width = 2000, height = 2000, mode = ''RGBA'', pixels = Raw 0\<rparr>
     Map.empty (3600, 4800) =
     Inr \<lparr>width = 2000, height = 2000, mode = ''RGBA'', pixels = Raw 0\<rparr>"
proof -
  define img where "img = \<lparr>width = 2000, height = 2000, mode = ''RGBA'', pixels = Raw 0\<rparr>"
  have sz: "0 < width img" "width img \<le> 2 ^ 24" "0 < height img" "height img \<le> 2 ^ 24"
    by (simp_all add: img_def)
  note R = resize_dimensions [OF ieee_like_exact sz]
  have d1: "(3600 * 45 :: int) div 100 = 1620" and d2: "(4200 * 25 :: int) div 100 = 1050"
    by simp_all
  from R [of "[''width_percent'' \<mapsto> 45, ''top_percent'' \<mapsto> 20]" 45 3600 4800]
  obtain th where th: "\<bar>real_of_int th - 1620\<bar> \<le> 1"
    and r1: "if 1 \<le> (3600 * 45 :: int) div 100 \<and> 1 \<le> th
      then \<exists>r. resize_maintaining_aspect exact img
               [''width_percent'' \<mapsto> 45, ''top_percent'' \<mapsto> 20] (3600, 4800) = Inr r \<and>
             width r = 3600 * 45 div 100 \<and> height r = th
      else resize_maintaining_aspect exact img
               [''width_percent'' \<mapsto> 45, ''top_percent'' \<mapsto> 20] (3600, 4800) = Inl ValueError"
    by (auto simp: img_def)
  from th have "1 \<le> th" by linarith
  with r1 have c1: "\<exists>r. resize_maintaining_aspect exact img
               [''width_percent'' \<mapsto> 45, ''top_percent'' \<mapsto> 20] (3600, 4800) = Inr r \<and>
             width r = 1620 \<and> height r = th"
    by (simp add: d1)
  from R [of "[''height_percent'' \<mapsto> 25, ''top_percent'' \<mapsto> 50]" 25 900 4200]
  obtain tw where tw: "\<bar>real_of_int tw - 1050\<bar> \<le> 1"
    and r2: "if 1 \<le> tw \<and> 1 \<le> (4200 * 25 :: int) div 100
      then \<exists>r. resize_maintaining_aspect exact img
               [''height_percent'' \<mapsto> 25, ''top_percent'' \<mapsto> 50] (900, 4200) = Inr r \<and>
             width r = tw \<and> height r = 4200 * 25 div 100
      else resize_maintaining_aspect exact img
               [''height_percent'' \<mapsto> 25, ''top_percent'' \<mapsto> 50] (900, 4200) = Inl ValueError"
    by (auto simp: img_def)
  from tw have "1 \<le> tw" by linarith
  with r2 have c2: "\<exists>r. resize_maintaining_aspect exact img
               [''height_percent'' \<mapsto> 25, ''top_percent'' \<mapsto> 50] (900, 4200) = Inr r \<and>
             width r = tw \<and> height r = 1050"
    by (simp add: d2)
  from R [of Map.empty 0 3600 4800]
  have c3: "resize_maintaining_aspect exact img Map.empty (3600, 4800) = Inr img" by simp
  show ?thesis
    using ieee_like_exact th c1 tw c2 c3 unfolding img_def by blast
qed

text \<open>
  C3 as stated asks for the rounded percentage. On a canvas 3599 wide, 45 percent is 1619.55:
  the code resizes to 1619, the rounded value is 1620.
\<close>

theorem rounded_width_counterexample:
  "resize_maintaining_aspect exact \<lparr>width = 2000, height = 2000, mode = ''RGBA'', pixels = Raw 0\<rparr>
     [''width_percent'' \<mapsto> 45] (3599, 4800) =
     Inr \<lparr>width = 1619, height = 1619, mode = ''RGBA'', pixels = Lanczos (Raw 0) (1619, 1619)\<rparr> \<and>
   spec_target 3599 45 = 1620"
  by (simp add: resize_maintaining_aspect_def int_truediv_def to_float_def py_int_def
      pil_resize_def img_size_def spec_target_def round_def Let_def)


section \<open>Curved titles\<close>

lemma place_chars_zero_radius:
  "chars \<noteq> [] \<Longrightarrow>
   place_chars F char_w font_size center_x center_y c 0 x0 placed chars = Inl ZeroDivisionError"
  by (cases chars) (simp_all add: float_truediv_def)

lemma draw_curved_text_world:
  "files (snd (draw_curved_text F bbox w chars fp fs sz c color)) = files w"
  "denied (snd (draw_curved_text F bbox w chars fp fs sz c color)) = denied w"
  by (cases sz; simp add: draw_curved_text_def Let_def split: sum.splits)+

lemma draw_curved_text_eq:
  "fst (draw_curved_text F bbox w chars fp fs (iw, ih) c color) =
     (let font = loaded_font w fp fs;
          text_width = sum_list (map (bbox font) chars);
          divisor = (if 0 < \<bar>c\<bar> then fl F (fl F (2 * fpi F) * \<bar>c\<bar>) else fl F (1 / 100))
      in case float_truediv F (to_float F text_width) divisor of
           Inl e \<Rightarrow> Inl e
         | Inr radius \<Rightarrow>
             (case place_chars F (bbox font) fs (iw div 2) (ih div 2 + 50) c radius
                     (fl F (of_int (- text_width) / 2)) [] chars of
                Inl e \<Rightarrow> Inl e
              | Inr tiles \<Rightarrow>
                  Inr \<lparr>width = iw, height = ih, mode = ''RGBA'',
                       pixels = Glyphs font fs color tiles\<rparr>))"
proof -
  have font: "fst (case truetype w fp fs of
                     Inr f \<Rightarrow> (f, w)
                   | Inl e \<Rightarrow> (DefaultFont, py_print w (FontLoadFailed fp e))) = loaded_font w fp fs"
    by (simp add: loaded_font_def split: sum.splits)
  show ?thesis
    unfolding draw_curved_text_def Let_def prod.case font
    by (simp split: sum.splits)
qed

lemma font_path_literal:
  "LIBRE_BODONI_regular = ''assets/fonts/Libre_Bodoni/static/LibreBodoni-Regular.ttf''"
  by (simp add: LIBRE_BODONI_regular_def FONTS_DIR_def path_join_def)

lemma no_font_in_demo [simp]: "loaded_font demo_world LIBRE_BODONI_regular 180 = DefaultFont"
  by (simp add: loaded_font_def truetype_def demo_world_def LIBRE_BODONI_regular_def FONTS_DIR_def
      path_join_def)

text \<open>
  C4. The epsilon stands in for a zero curvature only. A text that is not empty and whose
  measured widths add up to zero gives the radius 0, and the first character's angle is a
  division by that radius: \<open>draw_curved_text\<close> raises ZeroDivisionError, whatever the
  curvature (on every floating-point unit that represents 0).
\<close>

theorem zero_width_text_raises:
  assumes "chars \<noteq> []"
    and "sum_list (map (bbox (loaded_font w font_path font_size)) chars) = 0"
    and "fl F 0 = 0"
  shows "fst (draw_curved_text F bbox w chars font_path font_size image_size curve_strength
                color) = Inl ZeroDivisionError"
  using assms
  by (cases image_size)
     (auto simp: draw_curved_text_def loaded_font_def float_truediv_def to_float_def Let_def
        place_chars_zero_radius split: sum.splits)

theorem zero_width_text_raises_witness:
  "[8203] \<noteq> ([] :: nat list) \<and>
   sum_list (map ((\<lambda>f c. if c = 8203 then 0 else 100)
                   (loaded_font demo_world LIBRE_BODONI_regular 180)) [8203]) = 0 \<and>
   fl exact 0 = 0 \<and>
   fst (draw_curved_text exact (\<lambda>f c. if c = 8203 then 0 else 100) demo_world [8203]
          LIBRE_BODONI_regular 180 (2400, 800) (- (3 / 5)) (17, 17, 17, 255)) = Inl ZeroDivisionError"
  using zero_width_text_raises [of "[8203]" "\<lambda>f c. if c = 8203 then 0 else 100" demo_world
      LIBRE_BODONI_regular 180 exact "(2400, 800)" "- (3 / 5)" "(17, 17, 17, 255)"]
  by simp

subsection \<open>The layout under rounding\<close>

lemma double_like_exact: "double_like exact"
  using pi_ge_two pi_less_4 by (simp add: double_like_def ieee_like_exact)

lemma dl_ieee: "double_like F \<Longrightarrow> ieee_like F"
  by (simp add: double_like_def)

lemma dl_idem: "double_like F \<Longrightarrow> fl F (fl F x) = fl F x"
  by (simp add: double_like_def)

lemma dl_odd: "double_like F \<Longrightarrow> fl F (- x) = - fl F x"
  by (simp add: double_like_def)

lemma dl_half: "double_like F \<Longrightarrow> \<bar>k\<bar> \<le> 2 ^ 53 \<Longrightarrow> fl F (of_int k / 2) = of_int k / 2"
  by (simp add: double_like_def)

lemma dl_int: "double_like F \<Longrightarrow> \<bar>n\<bar> \<le> 2 ^ 53 \<Longrightarrow> to_float F n = of_int n"
  unfolding to_float_def by (intro ieee_fix dl_ieee)

lemma ieee_pos:
  assumes F: "ieee_like F" and x: "1 / 2 ^ 64 \<le> x"
  shows "0 < fl F x"
proof -
  define y :: real where "y = 1 / 2 ^ 64"
  have y0: "0 < y" unfolding y_def by simp
  define e where "e = y / 2 ^ 53"
  have "\<bar>fl F y - y\<bar> \<le> \<bar>y\<bar> / 2 ^ 53"
    unfolding y_def by (intro ieee_err [OF F]) simp_all
  moreover have "\<bar>y\<bar> = y" using y0 by simp
  ultimately have "\<bar>fl F y - y\<bar> \<le> e" unfolding e_def by simp
  moreover have "e < y" unfolding e_def using y0 by simp
  ultimately have "0 < fl F y" by linarith
  moreover have "fl F y \<le> fl F x" using x unfolding y_def by (intro ieee_mono [OF F])
  ultimately show ?thesis by linarith
qed

text \<open>The divisor of the radius is a positive double of moderate size.\<close>

lemma divisor_bounds:
  assumes D: "double_like F" and c0: "1 / 2 ^ 32 \<le> \<bar>c\<bar>" and c1: "\<bar>c\<bar> \<le> 2 ^ 32"
  shows "0 < fl F (fl F (2 * fpi F) * \<bar>c\<bar>)" "fl F (fl F (2 * fpi F) * \<bar>c\<bar>) \<le> 2 ^ 35"
proof -
  note F = dl_ieee [OF D]
  have p: "2 \<le> fpi F" "fpi F \<le> 4" using D by (simp_all add: double_like_def)
  have "fl F (of_int 4) \<le> fl F (2 * fpi F)" using p by (intro ieee_mono [OF F]) simp
  then have lo: "4 \<le> fl F (2 * fpi F)" using ieee_fix [OF F, of 4] by simp
  have "fl F (2 * fpi F) \<le> fl F (of_int 8)" using p by (intro ieee_mono [OF F]) simp
  then have hi: "fl F (2 * fpi F) \<le> 8" using ieee_fix [OF F, of 8] by simp
  have "4 * (1 / 2 ^ 32) \<le> fl F (2 * fpi F) * \<bar>c\<bar>"
    using lo c0 by (intro mult_mono) simp_all
  moreover have "(1::real) / 2 ^ 64 \<le> 4 * (1 / 2 ^ 32)" by simp
  ultimately have "1 / 2 ^ 64 \<le> fl F (2 * fpi F) * \<bar>c\<bar>" by linarith
  then show "0 < fl F (fl F (2 * fpi F) * \<bar>c\<bar>)" by (rule ieee_pos [OF F])
  have "fl F (2 * fpi F) * \<bar>c\<bar> \<le> 8 * 2 ^ 32"
    using hi c1 lo by (intro mult_mono) simp_all
  then have "fl F (2 * fpi F) * \<bar>c\<bar> \<le> of_int (2 ^ 35)" by simp
  then have "fl F (fl F (2 * fpi F) * \<bar>c\<bar>) \<le> of_int (2 ^ 35)"
    by (intro ieee_le_int [OF F]) simp_all
  then show "fl F (fl F (2 * fpi F) * \<bar>c\<bar>) \<le> 2 ^ 35" by simp
qed

lemma radius_pos:
  assumes D: "double_like F" and c0: "1 / 2 ^ 32 \<le> \<bar>c\<bar>" and c1: "\<bar>c\<bar> \<le> 2 ^ 32"
    and W: "0 < W"
  shows "0 < fl F (real_of_int W / fl F (fl F (2 * fpi F) * \<bar>c\<bar>))"
proof -
  note F = dl_ieee [OF D]
  define d where "d = fl F (fl F (2 * fpi F) * \<bar>c\<bar>)"
  have d: "0 < d" "d \<le> 2 ^ 35" unfolding d_def by (rule divisor_bounds [OF D c0 c1])+
  have "(1::real) \<le> of_int W" using W by simp
  then have "1 / d \<le> of_int W / d" using d by (intro divide_right_mono) simp_all
  moreover have "1 / 2 ^ 35 \<le> 1 / d" using d by (intro divide_left_mono) simp_all
  moreover have "(1::real) / 2 ^ 64 \<le> 1 / 2 ^ 35" by simp
  ultimately have "1 / 2 ^ 64 \<le> of_int W / d" by linarith
  then show ?thesis unfolding d_def [symmetric] by (rule ieee_pos [OF F])
qed

lemma place_chars_layout:
  assumes D: "double_like F" and r: "radius \<noteq> 0"
    and sz: "\<bar>center_x\<bar> \<le> 2 ^ 53" "\<bar>center_y\<bar> \<le> 2 ^ 53" "\<bar>font_size\<bar> \<le> 2 ^ 53"
  shows "\<forall>ch\<in>set chars. 0 \<le> char_w ch \<Longrightarrow> x0 = real_of_int k / 2 \<Longrightarrow> - (2 ^ 52) \<le> k \<Longrightarrow>
     k + 2 * sum_list (map char_w chars) \<le> 2 ^ 52 \<Longrightarrow>
     place_chars F char_w font_size center_x center_y c radius x0 placed chars =
       Inr (placed @ map (\<lambda>i.
          spec_place F font_size center_x center_y c radius
            (x0 + real_of_int (sum_list (map char_w (take i chars))))
            (chars ! i) (char_w (chars ! i)))
        [0..<length chars])"
proof (induction chars arbitrary: x0 k placed)
  case Nil
  then show ?case by simp
next
  case (Cons ch rest)
  define wd where "wd = char_w ch"
  have wd0: "0 \<le> wd" using Cons.prems(1) by (simp add: wd_def)
  have rest0: "0 \<le> sum_list (map char_w rest)"
    using Cons.prems(1) by (intro sum_list_nonneg) auto
  have up: "k + 2 * wd + 2 * sum_list (map char_w rest) \<le> 2 ^ 52"
    using Cons.prems(4) by (simp add: wd_def)
  have lo: "- (2 ^ 52) \<le> k" by (rule Cons.prems(3))
  have ints: "to_float F center_x = of_int center_x" "to_float F center_y = of_int center_y"
    "to_float F font_size = of_int font_size" "to_float F (- 1) = - 1" "to_float F 1 = 1"
    "to_float F wd = of_int wd"
    using sz wd0 rest0 up lo dl_int [OF D, of "- 1"] dl_int [OF D, of 1]
    by (simp_all add: dl_int [OF D])
  have a: "fl F (real_of_int wd / 2) = real_of_int wd / 2"
    using wd0 rest0 up lo by (intro dl_half [OF D]) simp
  have "fl F (real_of_int (k + wd) / 2) = real_of_int (k + wd) / 2"
    using wd0 rest0 up lo by (intro dl_half [OF D]) simp
  then have b: "fl F (x0 + real_of_int wd / 2) = x0 + real_of_int wd / 2"
    unfolding Cons.prems(2) by (simp add: add_divide_distrib)
  have "fl F (real_of_int (k + 2 * wd) / 2) = real_of_int (k + 2 * wd) / 2"
    using wd0 rest0 up lo by (intro dl_half [OF D]) simp
  then have c: "fl F (x0 + real_of_int wd) = x0 + real_of_int wd"
    unfolding Cons.prems(2) by (simp add: add_divide_distrib)
  have next_x: "x0 + real_of_int wd = real_of_int (k + 2 * wd) / 2"
    unfolding Cons.prems(2) by (simp add: add_divide_distrib)
  have nonneg: "\<forall>ch\<in>set rest. 0 \<le> char_w ch" using Cons.prems(1) by simp
  have up': "k + 2 * wd + 2 * sum_list (map char_w rest) \<le> 2 ^ 52" by (rule up)
  have lo': "- (2 ^ 52) \<le> k + 2 * wd" using lo wd0 by simp
  note IH = Cons.IH [OF nonneg next_x lo' up']
  show ?case
    using r
    by (simp add: wd_def [symmetric] IH ints a b c float_truediv_def degrees_def Let_def
        spec_place_def dl_odd [OF D] dl_idem [OF D] map_upt_Suc add.assoc del: upt_Suc)
qed

lemma draw_curved_text_layout:
  assumes D: "double_like F"
    and c: "1 / 2 ^ 32 \<le> \<bar>c\<bar>" "\<bar>c\<bar> \<le> 2 ^ 32"
    and nonneg: "\<forall>ch\<in>set chars. 0 \<le> bbox (loaded_font w fp fs) ch"
    and nz: "chars = [] \<or> sum_list (map (bbox (loaded_font w fp fs)) chars) \<noteq> 0"
    and W: "sum_list (map (bbox (loaded_font w fp fs)) chars) \<le> 2 ^ 32"
    and sz: "0 \<le> iw" "iw \<le> 2 ^ 24" "0 \<le> ih" "ih \<le> 2 ^ 24" "0 < fs" "fs \<le> 2 ^ 24"
  shows "fst (draw_curved_text F bbox w chars fp fs (iw, ih) c color) =
         Inr \<lparr>width = iw, height = ih, mode = ''RGBA'',
              pixels = Glyphs (loaded_font w fp fs) fs color
                (map (spec_tile F (bbox (loaded_font w fp fs)) fs (iw div 2) (ih div 2 + 50) c chars)
                   [0..<length chars])\<rparr>"
proof -
  define font where "font = loaded_font w fp fs"
  define tw where "tw = sum_list (map (bbox font) chars)"
  define d where "d = fl F (fl F (2 * fpi F) * \<bar>c\<bar>)"
  define radius where "radius = fl F (real_of_int tw / d)"
  have cpos: "0 < \<bar>c\<bar>"
  proof -
    have "(0::real) < 1 / 2 ^ 32" by simp
    with c(1) show ?thesis by linarith
  qed
  have d: "0 < d" unfolding d_def by (rule divisor_bounds [OF D c])
  have tw0: "0 \<le> tw" unfolding tw_def using nonneg by (intro sum_list_nonneg) (auto simp: font_def)
  have tw1: "tw \<le> 2 ^ 32" unfolding tw_def font_def by (rule W)
  have tf: "to_float F tw = of_int tw" using tw0 tw1 by (intro dl_int [OF D]) simp
  have x0: "fl F (real_of_int (- tw) / 2) = real_of_int (- tw) / 2"
    using tw0 tw1 by (intro dl_half [OF D]) simp
  then have x0': "fl F (- (real_of_int tw / 2)) = - (real_of_int tw / 2)" by simp
  have div: "float_truediv F (to_float F tw) d = Inr radius"
    using d by (simp add: float_truediv_def tf radius_def)
  have eq: "fst (draw_curved_text F bbox w chars fp fs (iw, ih) c color) =
     (case place_chars F (bbox font) fs (iw div 2) (ih div 2 + 50) c radius
             (real_of_int (- tw) / 2) [] chars of
        Inl e \<Rightarrow> Inl e
      | Inr tiles \<Rightarrow>
          Inr \<lparr>width = iw, height = ih, mode = ''RGBA'', pixels = Glyphs font fs color tiles\<rparr>)"
    unfolding draw_curved_text_eq Let_def font_def [symmetric] tw_def [symmetric]
    using cpos by (simp add: d_def [symmetric] div x0')
  have tiles: "place_chars F (bbox font) fs (iw div 2) (ih div 2 + 50) c radius
             (real_of_int (- tw) / 2) [] chars =
       Inr (map (spec_tile F (bbox font) fs (iw div 2) (ih div 2 + 50) c chars) [0..<length chars])"
  proof (cases "chars = []")
    case True
    then show ?thesis by simp
  next
    case False
    with nz have "tw \<noteq> 0" by (simp add: tw_def font_def)
    with tw0 have "0 < tw" by simp
    from radius_pos [OF D c this] have r: "radius \<noteq> 0" unfolding radius_def d_def by simp
    have b: "\<bar>iw div 2\<bar> \<le> 2 ^ 53" "\<bar>ih div 2 + 50\<bar> \<le> 2 ^ 53" "\<bar>fs\<bar> \<le> 2 ^ 53"
      using sz by simp_all
    have n: "\<forall>ch\<in>set chars. 0 \<le> bbox font ch" using nonneg by (simp add: font_def)
    have lo: "- (2 ^ 52) \<le> - tw" using tw1 by simp
    have up: "- tw + 2 * sum_list (map (bbox font) chars) \<le> 2 ^ 52"
      using tw1 by (simp add: tw_def [symmetric])
    have "place_chars F (bbox font) fs (iw div 2) (ih div 2 + 50) c radius
             (real_of_int (- tw) / 2) [] chars =
       Inr ([] @ map (\<lambda>i.
          spec_place F fs (iw div 2) (ih div 2 + 50) c radius
            (real_of_int (- tw) / 2 + real_of_int (sum_list (map (bbox font) (take i chars))))
            (chars ! i) (bbox font (chars ! i)))
        [0..<length chars])"
      by (rule place_chars_layout [OF D r b n refl lo up])
    then show ?thesis
      by (simp add: spec_tile_def Let_def tw_def [symmetric] radius_def d_def)
  qed
  show ?thesis unfolding eq tiles font_def [symmetric] by simp
qed





subsection \<open>The font fallback\<close>

lemma curve_bounds:
  assumes D: "double_like F"
  shows "1 / 2 ^ 32 \<le> \<bar>- fl F (3 / 5)\<bar>" "\<bar>- fl F (3 / 5)\<bar> \<le> 2 ^ 32"
proof -
  note F = dl_ieee [OF D]
  have "fl F (of_int 0) \<le> fl F (3 / 5)" by (intro ieee_mono [OF F]) simp
  then have lo: "0 \<le> fl F (3 / 5)" using ieee_fix [OF F, of 0] by simp
  have "fl F (3 / 5) \<le> fl F (of_int 1)" by (intro ieee_mono [OF F]) simp
  then have hi: "fl F (3 / 5) \<le> 1" using ieee_fix [OF F, of 1] by simp
  define e :: real where "e = (3 / 5) / 2 ^ 53"
  have "\<bar>fl F (3 / 5) - 3 / 5\<bar> \<le> \<bar>3 / 5\<bar> / 2 ^ 53" by (intro ieee_err [OF F]) simp_all
  then have "\<bar>fl F (3 / 5) - 3 / 5\<bar> \<le> e" unfolding e_def by simp
  moreover have "e \<le> 1 / 10" unfolding e_def by simp
  ultimately have "1 / 2 \<le> fl F (3 / 5)" by linarith
  moreover have "(1::real) / 2 ^ 32 \<le> 1 / 2" by simp
  ultimately show "1 / 2 ^ 32 \<le> \<bar>- fl F (3 / 5)\<bar>" using lo by simp
  have "(1::real) \<le> 2 ^ 32" by simp
  with hi lo show "\<bar>- fl F (3 / 5)\<bar> \<le> 2 ^ 32" by simp
qed

lemma loaded_font_cong:
  "files a fp = files b fp \<Longrightarrow> loaded_font a fp fs = loaded_font b fp fs"
  by (simp add: loaded_font_def truetype_def)

text \<open>
  C9, as amended. If the output directory cannot be created,
  \<open>render_title_with_libre_bodoni\<close> raises. Otherwise: if the font file does not exist, it
  returns \<open>None\<close> for both titles and writes nothing; if the file exists but cannot be
  loaded as a font, \<open>draw_curved_text\<close> falls back to the built-in font, and for a title
  that is empty or has a non-zero total width in that font (the widths non-negative, their
  sum at most \<open>2^32\<close>) and two output paths that can be written, both title rasters are
  written, laid out by \<open>spec_tile\<close> with the built-in font, and their paths returned. This holds
  on every floating-point unit that rounds as doubles do.
\<close>

theorem font_fallback:
  assumes "double_like F"
  shows "(output_dir = [] \<or> output_dir \<in> denied w \<longrightarrow>
            render_title_with_libre_bodoni F bbox kebab w title output_dir = Inl OSError) \<and>
         (output_dir \<noteq> [] \<and> output_dir \<notin> denied w \<and>
          \<not> path_exists w LIBRE_BODONI_regular \<longrightarrow>
            (\<exists>w'. render_title_with_libre_bodoni F bbox kebab w title output_dir =
                    Inr (no_titles, w') \<and> files w' = files w)) \<and>
         (output_dir \<noteq> [] \<and> output_dir \<notin> denied w \<and>
          path_exists w LIBRE_BODONI_regular \<and>
          truetype w LIBRE_BODONI_regular 180 = Inl OSError \<and>
          (\<forall>ch\<in>set title. 0 \<le> bbox DefaultFont ch) \<and>
          (title = [] \<or> sum_list (map (bbox DefaultFont) title) \<noteq> 0) \<and>
          sum_list (map (bbox DefaultFont) title) \<le> 2 ^ 32 \<and>
          path_join output_dir (kebab title @ ''_title_dark.png'') \<notin> denied w \<and>
          path_join output_dir (kebab title @ ''_title_light.png'') \<notin> denied w \<longrightarrow>
            (\<exists>w'.
               render_title_with_libre_bodoni F bbox kebab w title output_dir =
                 Inr (\<lparr>dark = Some (path_join output_dir (kebab title @ ''_title_dark.png'')),
                       light = Some (path_join output_dir (kebab title @ ''_title_light.png'')),
                       rendered_title = Some title, rendered_slug = Some (kebab title)\<rparr>, w') \<and>
               files w' =
                 (files w)
                   (path_join output_dir (kebab title @ ''_title_dark.png'') \<mapsto>
                      ImageFile \<lparr>width = 2400, height = 800, mode = ''RGBA'',
                        pixels = Glyphs DefaultFont 180 (17, 17, 17, 255)
                          (map (spec_tile F (bbox DefaultFont) 180 1200 450 (- fl F (60 / 100)) title)
                             [0..<length title])\<rparr>,
                    path_join output_dir (kebab title @ ''_title_light.png'') \<mapsto>
                      ImageFile \<lparr>width = 2400, height = 800, mode = ''RGBA'',
                        pixels = Glyphs DefaultFont 180 (255, 255, 255, 255)
                          (map (spec_tile F (bbox DefaultFont) 180 1200 450 (- fl F (60 / 100)) title)
                             [0..<length title])\<rparr>)))"
proof (intro conjI impI)
  assume "output_dir = [] \<or> output_dir \<in> denied w"
  then show "render_title_with_libre_bodoni F bbox kebab w title output_dir = Inl OSError"
    by (auto simp: render_title_with_libre_bodoni_def makedirs_def Let_def)
next
  assume "output_dir \<noteq> [] \<and> output_dir \<notin> denied w \<and> \<not> path_exists w LIBRE_BODONI_regular"
  then show "\<exists>w'. render_title_with_libre_bodoni F bbox kebab w title output_dir =
                    Inr (no_titles, w') \<and> files w' = files w"
    by (simp add: render_title_with_libre_bodoni_def render_title_try_def makedirs_def Let_def)
next
  let ?fp = LIBRE_BODONI_regular
  let ?c = "- fl F (3 / 5)"
  let ?dp = "path_join output_dir (kebab title @ ''_title_dark.png'')"
  let ?lp = "path_join output_dir (kebab title @ ''_title_light.png'')"
  let ?w0 = "py_print w (Rendering title (kebab title))"
  let ?w1 = "snd (draw_curved_text F bbox ?w0 title ?fp 180 (2400, 800) ?c (17, 17, 17, 255))"
  let ?tiles = "map (spec_tile F (bbox DefaultFont) 180 1200 450 ?c title) [0..<length title]"
  let ?d = "\<lparr>width = 2400, height = 800, mode = ''RGBA'',
             pixels = Glyphs DefaultFont 180 (17, 17, 17, 255) ?tiles\<rparr>"
  let ?l = "\<lparr>width = 2400, height = 800, mode = ''RGBA'',
             pixels = Glyphs DefaultFont 180 (255, 255, 255, 255) ?tiles\<rparr>"
  let ?R = "\<lparr>dark = Some ?dp, light = Some ?lp,
             rendered_title = Some title, rendered_slug = Some (kebab title)\<rparr>"
  let ?body = "render_title_try F bbox ?w0 title (kebab title) output_dir"
  assume a: "output_dir \<noteq> [] \<and> output_dir \<notin> denied w \<and>
          path_exists w ?fp \<and> truetype w ?fp 180 = Inl OSError \<and>
          (\<forall>ch\<in>set title. 0 \<le> bbox DefaultFont ch) \<and>
          (title = [] \<or> sum_list (map (bbox DefaultFont) title) \<noteq> 0) \<and>
          sum_list (map (bbox DefaultFont) title) \<le> 2 ^ 32 \<and>
          ?dp \<notin> denied w \<and> ?lp \<notin> denied w"
  from a have font: "loaded_font w ?fp 180 = DefaultFont" by (simp add: loaded_font_def)
  have W1: "files ?w1 = files w" "denied ?w1 = denied w"
    by (simp_all add: draw_curved_text_world)
  have f0: "loaded_font ?w0 ?fp 180 = DefaultFont"
    using font loaded_font_cong [of ?w0 ?fp w 180] by simp
  have f1: "loaded_font ?w1 ?fp 180 = DefaultFont"
    using font loaded_font_cong [of ?w1 ?fp w 180] W1 by simp
  have draw: "fst (draw_curved_text F bbox v title ?fp 180 (2400, 800) ?c k) =
      Inr \<lparr>width = 2400, height = 800, mode = ''RGBA'',
           pixels = Glyphs DefaultFont 180 k ?tiles\<rparr>"
    if "loaded_font v ?fp 180 = DefaultFont" for v k
    using draw_curved_text_layout [OF assms curve_bounds [OF assms], of title bbox v ?fp 180
        2400 800 k] a
    unfolding that by simp
  note D1 = draw [OF f0, of "(17, 17, 17, 255)"]
  note D2 = draw [OF f1, of "(255, 255, 255, 255)"]
  have neq: "?dp \<noteq> ?lp"
    using path_join_inject [of output_dir "kebab title" "''title_dark.png''" "''title_light.png''"]
    by auto
  have ex: "path_exists ?w0 ?fp" using a by simp
  have t1: "fst ?body = Inr ?R"
    using a by (simp add: render_title_try_def Let_def split_beta ex D1 D2 W1
        draw_curved_text_world image_save_def)
  have t2: "files (snd ?body) = (files w)(?dp \<mapsto> ImageFile ?d, ?lp \<mapsto> ImageFile ?l)"
    using a by (simp add: render_title_try_def Let_def split_beta ex D1 D2 W1
        draw_curved_text_world image_save_def)
  have run: "render_title_with_libre_bodoni F bbox kebab w title output_dir = Inr (?R, snd ?body)"
    using a t1
    by (simp add: render_title_with_libre_bodoni_def makedirs_def Let_def split_beta)
  show "\<exists>w'.
               render_title_with_libre_bodoni F bbox kebab w title output_dir =
                 Inr (\<lparr>dark = Some ?dp, light = Some ?lp,
                       rendered_title = Some title, rendered_slug = Some (kebab title)\<rparr>, w') \<and>
               files w' =
                 (files w)
                   (?dp \<mapsto>
                      ImageFile \<lparr>width = 2400, height = 800, mode = ''RGBA'',
                        pixels = Glyphs DefaultFont 180 (17, 17, 17, 255)
                          (map (spec_tile F (bbox DefaultFont) 180 1200 450 (- fl F (60 / 100)) title)
                             [0..<length title])\<rparr>,
                    ?lp \<mapsto>
                      ImageFile \<lparr>width = 2400, height = 800, mode = ''RGBA'',
                        pixels = Glyphs DefaultFont 180 (255, 255, 255, 255)
                          (map (spec_tile F (bbox DefaultFont) 180 1200 450 (- fl F (60 / 100)) title)
                             [0..<length title])\<rparr>)"
    using run t2 by (intro exI [of _ "snd ?body"]) simp
qed

text \<open>
  An output directory with an empty name, a missing font file, and a font file that is not
  a font.
\<close>

theorem font_fallback_witness:
  "double_like exact \<and>
   render_title_with_libre_bodoni exact (\<lambda>f c. 100) (\<lambda>t. ''hi'') demo_world [72, 105] [] =
     Inl OSError \<and>
   ''artifacts'' \<noteq> [] \<and> ''artifacts'' \<notin> denied demo_world \<and>
   \<not> path_exists demo_world LIBRE_BODONI_regular \<and>
   (\<exists>w'. render_title_with_libre_bodoni exact (\<lambda>f c. 100) (\<lambda>t. ''hi'') demo_world [72, 105]
            ''artifacts'' = Inr (no_titles, w') \<and> files w' = files demo_world) \<and>
   ''artifacts'' \<notin> denied broken_font_world \<and>
   path_exists broken_font_world LIBRE_BODONI_regular \<and>
   truetype broken_font_world LIBRE_BODONI_regular 180 = Inl OSError \<and>
   (\<exists>w'.
      render_title_with_libre_bodoni exact (\<lambda>f c. 100) (\<lambda>t. ''hi'') broken_font_world [72, 105]
        ''artifacts'' =
        Inr (\<lparr>dark = Some ''artifacts/hi_title_dark.png'',
              light = Some ''artifacts/hi_title_light.png'',
              rendered_title = Some [72, 105], rendered_slug = Some ''hi''\<rparr>, w') \<and>
      files w' =
        (files broken_font_world)
          (''artifacts/hi_title_dark.png'' \<mapsto>
             ImageFile \<lparr>width = 2400, height = 800, mode = ''RGBA'',
               pixels = Glyphs DefaultFont 180 (17, 17, 17, 255)
                 [spec_tile exact (\<lambda>c. 100) 180 1200 450 (- (3 / 5)) [72, 105] 0,
                  spec_tile exact (\<lambda>c. 100) 180 1200 450 (- (3 / 5)) [72, 105] 1]\<rparr>,
           ''artifacts/hi_title_light.png'' \<mapsto>
             ImageFile \<lparr>width = 2400, height = 800, mode = ''RGBA'',
               pixels = Glyphs DefaultFont 180 (255, 255, 255, 255)
                 [spec_tile exact (\<lambda>c. 100) 180 1200 450 (- (3 / 5)) [72, 105] 0,
                  spec_tile exact (\<lambda>c. 100) 180 1200 450 (- (3 / 5)) [72, 105] 1]\<rparr>))"
proof -
  note R = font_fallback [OF double_like_exact, where bbox = "\<lambda>f c. 100" and kebab = "\<lambda>t. ''hi''"
      and title = "[72, 105]"]
  have dn: "denied broken_font_world = {''locked/front.png''}"
    "denied demo_world = {''locked/front.png''}"
    by (simp_all add: broken_font_world_def demo_world_def)
  have ex: "path_exists broken_font_world LIBRE_BODONI_regular"
    and tt: "truetype broken_font_world LIBRE_BODONI_regular 180 = Inl OSError"
    by (simp_all add: broken_font_world_def path_exists_def truetype_def)
  have nofont: "\<not> path_exists demo_world LIBRE_BODONI_regular"
    by (simp add: path_exists_def font_path_literal demo_world_def)
  have upt: "[0..<length [72, 105 :: nat]] = [0, 1]" by (simp add: upt_rec)
  from R [where w = demo_world and output_dir = "[]"]
  have 0: "render_title_with_libre_bodoni exact (\<lambda>f c. 100) (\<lambda>t. ''hi'') demo_world [72, 105] [] =
     Inl OSError"
    by simp
  from R [where w = demo_world and output_dir = "''artifacts''"] nofont
  have 1: "\<exists>w'. render_title_with_libre_bodoni exact (\<lambda>f c. 100) (\<lambda>t. ''hi'') demo_world [72, 105]
            ''artifacts'' = Inr (no_titles, w') \<and> files w' = files demo_world"
    by (simp add: dn)
  from R [where w = broken_font_world and output_dir = "''artifacts''"] ex tt
  have 2: "\<exists>w'.
      render_title_with_libre_bodoni exact (\<lambda>f c. 100) (\<lambda>t. ''hi'') broken_font_world [72, 105]
        ''artifacts'' =
        Inr (\<lparr>dark = Some ''artifacts/hi_title_dark.png'',
              light = Some ''artifacts/hi_title_light.png'',
              rendered_title = Some [72, 105], rendered_slug = Some ''hi''\<rparr>, w') \<and>
      files w' =
        (files broken_font_world)
          (''artifacts/hi_title_dark.png'' \<mapsto>
             ImageFile \<lparr>width = 2400, height = 800, mode = ''RGBA'',
               pixels = Glyphs DefaultFont 180 (17, 17, 17, 255)
                 [spec_tile exact (\<lambda>c. 100) 180 1200 450 (- (3 / 5)) [72, 105] 0,
                  spec_tile exact (\<lambda>c. 100) 180 1200 450 (- (3 / 5)) [72, 105] 1]\<rparr>,
           ''artifacts/hi_title_light.png'' \<mapsto>
             ImageFile \<lparr>width = 2400, height = 800, mode = ''RGBA'',
               pixels = Glyphs DefaultFont 180 (255, 255, 255, 255)
                 [spec_tile exact (\<lambda>c. 100) 180 1200 450 (- (3 / 5)) [72, 105] 0,
                  spec_tile exact (\<lambda>c. 100) 180 1200 450 (- (3 / 5)) [72, 105] 1]\<rparr>)"
    unfolding upt by (simp add: dn path_join_def)
  from 0 1 2 nofont ex tt double_like_exact show ?thesis by (simp add: dn)
qed

text \<open>
  C9 as stated fails: with no file at the font path the font cannot be loaded, and the
  title rendering returns \<open>None\<close> for both rasters, having written nothing.
\<close>

theorem missing_font_counterexample:
  "truetype demo_world LIBRE_BODONI_regular 180 = Inl OSError \<and>
   render_title_with_libre_bodoni exact (\<lambda>f c. 100) (\<lambda>t. ''hi'') demo_world [72, 105] ''artifacts'' =
     Inr (\<lparr>dark = None, light = None, rendered_title = None, rendered_slug = None\<rparr>,
          demo_world\<lparr>stdout :=
            [Rendering [72, 105] ''hi'',
             FontNotFound ''assets/fonts/Libre_Bodoni/static/LibreBodoni-Regular.ttf'',
             FontSearchHint ''assets/fonts/Libre_Bodoni/static/LibreBodoni-Regular.ttf'']\<rparr>)"
  by (simp add: render_title_with_libre_bodoni_def render_title_try_def makedirs_def Let_def
      truetype_def path_exists_def no_titles_def py_print_def font_path_literal demo_world_def)

end
